theory Spec2Isabelle
  imports Complex_Main "HOL-Library.Word"
begin

section \<open>Values, errors and the byte stream\<close>

text \<open>
  The header parser of \<^verbatim>\<open>src/mgz/fast/header.py\<close> works on an \<^verbatim>\<open>io.BytesIO\<close>:
  an immutable byte buffer and a position. Every Python exception is a value of
  \<open>error\<close>; a function that can raise returns \<open>error + result\<close>, \<open>Inl\<close> the exception.
\<close>

type_synonym byte = "8 word"

datatype error =
    StructError
  | ZlibError
  | ValueError
  | IndexError
  | KeyError
  | TypeError
  | OverflowError
  | RuntimeError string
  | CouldNotParse error

text \<open>
  A Python float. The parser only ever holds floats that were read from an IEEE-754
  single or computed from one exactly, so a finite float is the rational it denotes.
\<close>

datatype pyfloat = Finite rat | PosInf | NegInf | NaN

text \<open>Python strings are sequences of code points.\<close>

type_synonym pystr = "nat list"

datatype version = AOK | AOC | USERPATCH15 | HD | DE | MCP | TRIAL | OtherVersion

datatype pyval =
    PNone
  | PBool bool
  | PInt int
  | PFloat pyfloat
  | PBytes "byte list"
  | PStr pystr
  | PList "pyval list"
  | PTuple "pyval list"
  | PDict "(string \<times> pyval) list"
  | PSha1 "byte list"
  | PVersion version

record stream =
  buf :: "byte list"
  pos :: nat

definition bind :: "error + 'a \<Rightarrow> ('a \<Rightarrow> error + 'b) \<Rightarrow> error + 'b" where
  "bind m f = (case m of Inl e \<Rightarrow> Inl e | Inr x \<Rightarrow> f x)"

text \<open>\<^verbatim>\<open>BytesIO.read(n)\<close>: at most \<open>n\<close> bytes, everything left when \<open>n\<close> is negative;
  a short read is not an error.\<close>

definition read :: "stream \<Rightarrow> int \<Rightarrow> byte list \<times> stream" where
  "read h n =
     (let rest = drop (pos h) (buf h);
          bs = (if n < 0 then rest else take (nat n) rest)
      in (bs, h\<lparr>pos := pos h + length bs\<rparr>))"

definition skip :: "stream \<Rightarrow> int \<Rightarrow> stream" where
  "skip h n = snd (read h n)"

text \<open>\<^verbatim>\<open>if c: data.read(n)\<close>, the conditional skip of a field.\<close>

definition skip_if :: "bool \<Rightarrow> stream \<Rightarrow> int \<Rightarrow> stream" where
  "skip_if c h n = (if c then skip h n else h)"

definition tell :: "stream \<Rightarrow> int" where
  "tell h = int (pos h)"

text \<open>\<^verbatim>\<open>BytesIO.seek(t)\<close> raises ValueError on a negative target;
  \<^verbatim>\<open>BytesIO.seek(d, 1)\<close> stops at 0.\<close>

definition seek :: "stream \<Rightarrow> int \<Rightarrow> error + stream" where
  "seek h t = (if t < 0 then Inl ValueError else Inr (h\<lparr>pos := nat t\<rparr>))"

definition seek_cur :: "stream \<Rightarrow> int \<Rightarrow> stream" where
  "seek_cur h d = h\<lparr>pos := nat (max 0 (int (pos h) + d))\<rparr>"

text \<open>\<open>adv h h' k\<close>: \<open>h'\<close> is \<open>h\<close> after skips of \<open>k\<close> bytes in all; when \<open>h'\<close> is still
  inside the buffer no skip was cut short, and it stands exactly \<open>k\<close> bytes further.\<close>

definition adv :: "stream \<Rightarrow> stream \<Rightarrow> nat \<Rightarrow> bool" where
  "adv h h' k \<longleftrightarrow>
     buf h' = buf h \<and> pos h \<le> pos h' \<and> (pos h' < length (buf h) \<longrightarrow> pos h' = pos h + k)"

subsection \<open>Struct formats\<close>

text \<open>
  A format string of \<^verbatim>\<open>struct\<close> is a list of (count, code): \<^verbatim>\<open><7sxf\<close> is
  \<open>[(7, Cs), (1, Cx), (1, Cf)]\<close>. All the formats of the parser are little-endian
  without alignment; the two native ones (\<^verbatim>\<open>I4xIIbb\<close>, \<^verbatim>\<open>b\<close>) have every field
  naturally aligned, so on a little-endian machine they read the same bytes.
\<close>

datatype code = Cx | Cb | CB | Ch | CH | Ci | CI | CQ | Cf | Cs

fun size_of :: "code \<Rightarrow> nat" where
  "size_of Cx = 1"
| "size_of Cb = 1"
| "size_of CB = 1"
| "size_of Ch = 2"
| "size_of CH = 2"
| "size_of Ci = 4"
| "size_of CI = 4"
| "size_of CQ = 8"
| "size_of Cf = 4"
| "size_of Cs = 1"

fun le_nat :: "byte list \<Rightarrow> nat" where
  "le_nat [] = 0"
| "le_nat (b # bs) = unat b + 256 * le_nat bs"

definition le_int :: "byte list \<Rightarrow> int" where
  "le_int bs =
     (let u = int (le_nat bs)
      in if 2 * u < 2 ^ (8 * length bs) then u else u - 2 ^ (8 * length bs))"

text \<open>An IEEE-754 single from its 32 bits; Python widens it to a double exactly.\<close>

definition f32 :: "nat \<Rightarrow> pyfloat" where
  "f32 u =
     (let s = (if u div 2 ^ 31 = 0 then 1 else - 1 :: rat);
          e = (u div 2 ^ 23) mod 256;
          m = u mod 2 ^ 23
      in if e = 255 then (if m = 0 then (if s = 1 then PosInf else NegInf) else NaN)
         else if e = 0 then Finite (s * of_nat m / 2 ^ 149)
         else if e < 150 then Finite (s * of_nat (2 ^ 23 + m) / 2 ^ (150 - e))
         else Finite (s * of_nat (2 ^ 23 + m) * 2 ^ (e - 150)))"

fun decode1 :: "code \<Rightarrow> byte list \<Rightarrow> pyval" where
  "decode1 Cb bs = PInt (le_int bs)"
| "decode1 Ch bs = PInt (le_int bs)"
| "decode1 Ci bs = PInt (le_int bs)"
| "decode1 CB bs = PInt (int (le_nat bs))"
| "decode1 CH bs = PInt (int (le_nat bs))"
| "decode1 CI bs = PInt (int (le_nat bs))"
| "decode1 CQ bs = PInt (int (le_nat bs))"
| "decode1 Cf bs = PFloat (f32 (le_nat bs))"
| "decode1 Cs bs = PBytes bs"
| "decode1 Cx bs = PNone"

definition decode_rep :: "code \<Rightarrow> nat \<Rightarrow> byte list \<Rightarrow> pyval list" where
  "decode_rep c n bs =
     map (\<lambda>i. decode1 c (take (size_of c) (drop (i * size_of c) bs))) [0..<n]"

fun decode :: "(int \<times> code) list \<Rightarrow> byte list \<Rightarrow> pyval list" where
  "decode [] bs = []"
| "decode ((n, Cx) # fmt) bs = decode fmt (drop (nat n) bs)"
| "decode ((n, Cs) # fmt) bs = PBytes (take (nat n) bs) # decode fmt (drop (nat n) bs)"
| "decode ((n, c) # fmt) bs =
     decode_rep c (nat n) bs @ decode fmt (drop (nat n * size_of c) bs)"

text \<open>\<^verbatim>\<open>struct.calcsize\<close>: a negative count is not a format (\<^verbatim>\<open>struct.error\<close>).\<close>

definition calcsize :: "(int \<times> code) list \<Rightarrow> error + nat" where
  "calcsize fmt =
     (if list_ex (\<lambda>(n, c). n < 0) fmt then Inl StructError
      else Inr (sum_list (map (\<lambda>(n, c). nat n * size_of c) fmt)))"

text \<open>
  Modelled from the spec: \<^verbatim>\<open>mgz.util.unpack\<close> is imported, not part of the sources.
  The spec's cursor (4.1, \<open>read_struct\<close>) reads a tuple laid out by the format and fails
  with a structural error on any read past the end of the buffer:
  \<^verbatim>\<open>struct.unpack(fmt, data.read(struct.calcsize(fmt)))\<close>. The model returns the tuple
  as a list; each site takes the single value out where the helper would.
\<close>

definition unpack :: "(int \<times> code) list \<Rightarrow> stream \<Rightarrow> error + (pyval list \<times> stream)" where
  "unpack fmt h =
     bind (calcsize fmt) (\<lambda>n.
       let (bs, h') = read h (int n)
       in if length bs \<noteq> n then Inl StructError else Inr (decode fmt bs, h'))"

text \<open>Taking the values out of the tuple; a value of another type than the format
  promises cannot occur, and would be a TypeError where it is used.\<close>

fun the_int :: "pyval \<Rightarrow> error + int" where
  "the_int (PInt i) = Inr i"
| "the_int v = Inl TypeError"

fun the_float :: "pyval \<Rightarrow> error + pyfloat" where
  "the_float (PFloat f) = Inr f"
| "the_float v = Inl TypeError"

fun the_bytes :: "pyval \<Rightarrow> error + byte list" where
  "the_bytes (PBytes s) = Inr s"
| "the_bytes v = Inl TypeError"

fun ints :: "pyval list \<Rightarrow> error + int list" where
  "ints [] = Inr []"
| "ints (v # vs) = bind (the_int v) (\<lambda>i. bind (ints vs) (\<lambda>is. Inr (i # is)))"

fun tuple1 :: "'a list \<Rightarrow> error + 'a" where
  "tuple1 [a] = Inr a"
| "tuple1 vs = Inl TypeError"

fun tuple2 :: "'a list \<Rightarrow> error + ('a \<times> 'a)" where
  "tuple2 [a, b] = Inr (a, b)"
| "tuple2 vs = Inl TypeError"

fun tuple3 :: "'a list \<Rightarrow> error + ('a \<times> 'a \<times> 'a)" where
  "tuple3 [a, b, c] = Inr (a, b, c)"
| "tuple3 vs = Inl TypeError"

fun tuple4 :: "'a list \<Rightarrow> error + ('a \<times> 'a \<times> 'a \<times> 'a)" where
  "tuple4 [a, b, c, d] = Inr (a, b, c, d)"
| "tuple4 vs = Inl TypeError"

fun tuple5 :: "'a list \<Rightarrow> error + ('a \<times> 'a \<times> 'a \<times> 'a \<times> 'a)" where
  "tuple5 [a, b, c, d, e] = Inr (a, b, c, d, e)"
| "tuple5 vs = Inl TypeError"

definition one_int :: "pyval list \<Rightarrow> error + int" where
  "one_int vs = bind (tuple1 vs) the_int"

definition one_bytes :: "pyval list \<Rightarrow> error + byte list" where
  "one_bytes vs = bind (tuple1 vs) the_bytes"

definition ints2 :: "pyval list \<Rightarrow> error + (int \<times> int)" where
  "ints2 vs = bind (ints vs) tuple2"

definition ints3 :: "pyval list \<Rightarrow> error + (int \<times> int \<times> int)" where
  "ints3 vs = bind (ints vs) tuple3"

definition ints5 :: "pyval list \<Rightarrow> error + (int \<times> int \<times> int \<times> int \<times> int)" where
  "ints5 vs = bind (ints vs) tuple5"

definition unpack_int :: "(int \<times> code) list \<Rightarrow> stream \<Rightarrow> error + (int \<times> stream)" where
  "unpack_int fmt h =
     bind (unpack fmt h) (\<lambda>(vs, h).
     bind (one_int vs) (\<lambda>i. Inr (i, h)))"

definition unpack_ints :: "(int \<times> code) list \<Rightarrow> stream \<Rightarrow> error + (int list \<times> stream)" where
  "unpack_ints fmt h =
     bind (unpack fmt h) (\<lambda>(vs, h).
     bind (ints vs) (\<lambda>is. Inr (is, h)))"

subsection \<open>Strings\<close>

text \<open>\<^verbatim>\<open>bytes.decode('utf-8')\<close>, strict: UnicodeDecodeError is a ValueError.\<close>

definition cont :: "byte \<Rightarrow> bool" where
  "cont b = (128 \<le> unat b \<and> unat b \<le> 191)"

fun utf8_decode :: "byte list \<Rightarrow> error + pystr" where
  "utf8_decode [] = Inr []"
| "utf8_decode (b0 # bs) =
     (let n0 = unat b0 in
      if n0 < 128 then bind (utf8_decode bs) (\<lambda>cs. Inr (n0 # cs))
      else if 194 \<le> n0 \<and> n0 \<le> 223 then
        (case bs of
           b1 # r \<Rightarrow>
             if cont b1
             then bind (utf8_decode r) (\<lambda>cs. Inr (((n0 - 192) * 64 + (unat b1 - 128)) # cs))
             else Inl ValueError
         | _ \<Rightarrow> Inl ValueError)
      else if 224 \<le> n0 \<and> n0 \<le> 239 then
        (case bs of
           b1 # b2 # r \<Rightarrow>
             if cont b1 \<and> cont b2 \<and> (n0 = 224 \<longrightarrow> 160 \<le> unat b1)
                \<and> (n0 = 237 \<longrightarrow> unat b1 \<le> 159)
             then bind (utf8_decode r) (\<lambda>cs.
                    Inr (((n0 - 224) * 4096 + (unat b1 - 128) * 64 + (unat b2 - 128)) # cs))
             else Inl ValueError
         | _ \<Rightarrow> Inl ValueError)
      else if 240 \<le> n0 \<and> n0 \<le> 244 then
        (case bs of
           b1 # b2 # b3 # r \<Rightarrow>
             if cont b1 \<and> cont b2 \<and> cont b3 \<and> (n0 = 240 \<longrightarrow> 144 \<le> unat b1)
                \<and> (n0 = 244 \<longrightarrow> unat b1 \<le> 143)
             then bind (utf8_decode r) (\<lambda>cs.
                    Inr (((n0 - 240) * 262144 + (unat b1 - 128) * 4096
                          + (unat b2 - 128) * 64 + (unat b3 - 128)) # cs))
             else Inl ValueError
         | _ \<Rightarrow> Inl ValueError)
      else Inl ValueError)"

text \<open>\<^verbatim>\<open>str.split(sep)\<close> for a one-character separator: never an empty list.\<close>

fun split_on :: "'a \<Rightarrow> 'a list \<Rightarrow> 'a list list" where
  "split_on c [] = [[]]"
| "split_on c (x # xs) =
     (if x = c then [] # split_on c xs
      else (case split_on c xs of w # ws \<Rightarrow> (x # w) # ws | [] \<Rightarrow> [[x]]))"

definition str :: "string \<Rightarrow> pystr" where
  "str s = map of_char s"

definition aoc_string :: "stream \<Rightarrow> error + (byte list \<times> stream)" where
  "aoc_string data =
     bind (unpack_int [(1, Ch)] data) (\<lambda>(length, data).
       Inr (read data length))"

definition int_prefixed_string :: "stream \<Rightarrow> error + (byte list \<times> stream)" where
  "int_prefixed_string data =
     bind (unpack_int [(1, CI)] data) (\<lambda>(length, data).
       Inr (read data length))"

definition unpack_bytes :: "int \<Rightarrow> stream \<Rightarrow> error + (byte list \<times> stream)" where
  "unpack_bytes n h =
     bind (unpack [(n, Cs)] h) (\<lambda>(vs, h).
     bind (one_bytes vs) (\<lambda>s. Inr (s, h)))"

definition de_string :: "stream \<Rightarrow> error + (byte list \<times> stream)" where
  "de_string data =
     (let (got, data) = read data 2 in
      if got \<noteq> [96, 10] then Inl ValueError
      else bind (unpack_int [(1, Ch)] data) (\<lambda>(length, data).
           unpack_bytes length data))"

definition hd_string :: "stream \<Rightarrow> error + (byte list \<times> stream)" where
  "hd_string data =
     bind (unpack_int [(1, Ch)] data) (\<lambda>(length, data).
       let (got, data) = read data 2 in
       if got \<noteq> [96, 10] then Inl ValueError
       else unpack_bytes length data)"

section \<open>Basic facts about the stream\<close>

lemma bind_cong [fundef_cong]:
  "m = m' \<Longrightarrow> (\<And>x. m' = Inr x \<Longrightarrow> f x = f' x) \<Longrightarrow> bind m f = bind m' f'"
  by (auto simp: bind_def split: sum.splits)

lemma bind_Inr_iff:
  "bind m f = Inr y \<longleftrightarrow> (\<exists>x. m = Inr x \<and> f x = Inr y)"
  by (cases m) (simp_all add: bind_def)

lemma bind_simps [simp]:
  "bind (Inl e) f = Inl e"
  "bind (Inr x) f = f x"
  by (simp_all add: bind_def)

lemma bindE:
  assumes "bind m f = Inr y"
  obtains x where "m = Inr x" and "f x = Inr y"
  using assms by (auto simp: bind_Inr_iff)

lemma bind_pairE:
  assumes "bind m (\<lambda>(a, b). f a b) = Inr y"
  obtains a b where "m = Inr (a, b)" and "f a b = Inr y"
  using assms by (auto simp: bind_Inr_iff)

lemma read_facts:
  "read h n = (bs, h') \<Longrightarrow> buf h' = buf h \<and> pos h' = pos h + length bs
     \<and> (n < 0 \<longrightarrow> bs = drop (pos h) (buf h))
     \<and> (0 \<le> n \<longrightarrow> bs = take (nat n) (drop (pos h) (buf h)))"
  by (auto simp: read_def Let_def)

lemma unpack_facts:
  assumes "unpack fmt h = Inr (vs, h')"
  shows "\<exists>n. calcsize fmt = Inr n \<and> buf h' = buf h \<and> pos h' = pos h + n
           \<and> n \<le> length (buf h) - pos h
           \<and> vs = decode fmt (take n (drop (pos h) (buf h)))"
proof -
  from assms obtain n where n: "calcsize fmt = Inr n"
    by (auto simp: unpack_def bind_Inr_iff)
  obtain bs h1 where r: "read h (int n) = (bs, h1)"
    by (cases "read h (int n)")
  from assms n r have len: "length bs = n" and vs: "vs = decode fmt bs" and h': "h' = h1"
    by (auto simp: unpack_def split: if_splits)
  from read_facts [OF r] len vs h' n show ?thesis
    by auto
qed

lemma calcsize_single [simp]:
  "calcsize [(n, c)] = (if n < 0 then Inl StructError else Inr (nat n * size_of c))"
  by (simp add: calcsize_def)

lemma the_int_Inr: "the_int v = Inr i \<longleftrightarrow> v = PInt i"
  by (cases v) auto

lemma the_float_Inr: "the_float v = Inr f \<longleftrightarrow> v = PFloat f"
  by (cases v) auto

lemma the_bytes_Inr: "the_bytes v = Inr s \<longleftrightarrow> v = PBytes s"
  by (cases v) auto

lemma ints_Inr: "ints vs = Inr is \<longleftrightarrow> vs = map PInt is"
  by (induction vs arbitrary: "is") (auto simp: bind_Inr_iff the_int_Inr)

lemma tuple1_Inr: "tuple1 vs = Inr a \<longleftrightarrow> vs = [a]"
  by (cases vs rule: tuple1.cases) auto

lemma tuple2_Inr: "tuple2 vs = Inr t \<longleftrightarrow> (\<exists>a b. vs = [a, b] \<and> t = (a, b))"
  by (cases vs rule: tuple2.cases) auto

lemma tuple3_Inr: "tuple3 vs = Inr t \<longleftrightarrow> (\<exists>a b c. vs = [a, b, c] \<and> t = (a, b, c))"
  by (cases vs rule: tuple3.cases) auto

lemma tuple4_Inr:
  "tuple4 vs = Inr t \<longleftrightarrow> (\<exists>a b c d. vs = [a, b, c, d] \<and> t = (a, b, c, d))"
  by (cases vs rule: tuple4.cases) auto

lemma tuple5_Inr:
  "tuple5 vs = Inr t \<longleftrightarrow> (\<exists>a b c d e. vs = [a, b, c, d, e] \<and> t = (a, b, c, d, e))"
  by (cases vs rule: tuple5.cases) auto

lemma one_int_Inr: "one_int vs = Inr i \<longleftrightarrow> vs = [PInt i]"
  by (auto simp: one_int_def bind_Inr_iff tuple1_Inr the_int_Inr)

lemma one_bytes_Inr: "one_bytes vs = Inr s \<longleftrightarrow> vs = [PBytes s]"
  by (auto simp: one_bytes_def bind_Inr_iff tuple1_Inr the_bytes_Inr)

lemma ints2_Inr: "ints2 vs = Inr t \<longleftrightarrow> (\<exists>a b. vs = [PInt a, PInt b] \<and> t = (a, b))"
  by (auto simp: ints2_def bind_Inr_iff tuple2_Inr ints_Inr)

lemma ints3_Inr:
  "ints3 vs = Inr t \<longleftrightarrow> (\<exists>a b c. vs = [PInt a, PInt b, PInt c] \<and> t = (a, b, c))"
  by (auto simp: ints3_def bind_Inr_iff tuple3_Inr ints_Inr)

lemma ints5_Inr:
  "ints5 vs = Inr t \<longleftrightarrow>
     (\<exists>a b c d e. vs = [PInt a, PInt b, PInt c, PInt d, PInt e] \<and> t = (a, b, c, d, e))"
  by (auto simp: ints5_def bind_Inr_iff tuple5_Inr ints_Inr)

lemma bind_ints2E:
  assumes "bind (ints2 vs) (\<lambda>(a, b). f a b) = Inr y"
  obtains a b where "vs = [PInt a, PInt b]" and "f a b = Inr y"
  using assms by (auto simp: bind_Inr_iff ints2_Inr)

lemma bind_ints3E:
  assumes "bind (ints3 vs) (\<lambda>(a, b, c). f a b c) = Inr y"
  obtains a b c where "vs = [PInt a, PInt b, PInt c]" and "f a b c = Inr y"
  using assms by (auto simp: bind_Inr_iff ints3_Inr)

lemma bind_ints5E:
  assumes "bind (ints5 vs) (\<lambda>(a, b, c, d, e). f a b c d e) = Inr y"
  obtains a b c d e where "vs = [PInt a, PInt b, PInt c, PInt d, PInt e]"
    and "f a b c d e = Inr y"
  using assms by (auto simp: bind_Inr_iff ints5_Inr)

lemma unpack_int_facts_gen:
  assumes "unpack_int fmt h = Inr (i, h')"
  shows "\<exists>n. calcsize fmt = Inr n \<and> buf h' = buf h \<and> pos h' = pos h + n
           \<and> n \<le> length (buf h) - pos h
           \<and> [PInt i] = decode fmt (take n (drop (pos h) (buf h)))"
proof -
  from assms have u: "unpack fmt h = Inr ([PInt i], h')"
    by (auto simp: unpack_int_def bind_Inr_iff one_int_Inr)
  from unpack_facts [OF u] show ?thesis
    by auto
qed

lemma unpack_int_facts:
  assumes "unpack_int [(1, c)] h = Inr (i, h')"
  shows "buf h' = buf h \<and> pos h' = pos h + size_of c
           \<and> size_of c \<le> length (buf h) - pos h
           \<and> [PInt i] = decode [(1, c)] (take (size_of c) (drop (pos h) (buf h)))"
proof -
  from assms have u: "unpack [(1, c)] h = Inr ([PInt i], h')"
    by (auto simp: unpack_int_def bind_Inr_iff one_int_Inr)
  from unpack_facts [OF u] show ?thesis
    by auto
qed

lemma unpack_bytes_facts:
  assumes "unpack_bytes n h = Inr (s, h')"
  shows "0 \<le> n \<and> buf h' = buf h \<and> pos h' = pos h + nat n
           \<and> nat n \<le> length (buf h) - pos h
           \<and> s = take (nat n) (drop (pos h) (buf h))"
proof -
  from assms have u: "unpack [(n, Cs)] h = Inr ([PBytes s], h')"
    by (auto simp: unpack_bytes_def bind_Inr_iff one_bytes_Inr)
  from unpack_facts [OF u] show ?thesis
    by (auto split: if_splits)
qed

lemma de_string_facts:
  assumes "de_string h = Inr (s, h')"
  shows "buf h' = buf h \<and> pos h' = pos h + 4 + length s
           \<and> take 2 (drop (pos h) (buf h)) = [96, 10]
           \<and> 4 + length s \<le> length (buf h) - pos h
           \<and> s = take (length s) (drop (pos h + 4) (buf h))"
proof -
  obtain got h1 where r: "read h 2 = (got, h1)"
    by (cases "read h 2")
  from assms r have got: "got = [96, 10]"
    by (auto simp: de_string_def split: if_splits)
  from assms r got obtain n h2 where
    i: "unpack_int [(1, Ch)] h1 = Inr (n, h2)" and b: "unpack_bytes n h2 = Inr (s, h')"
    by (auto simp: de_string_def bind_Inr_iff)
  from read_facts [OF r] got have h1: "buf h1 = buf h" "pos h1 = pos h + 2"
    "take 2 (drop (pos h) (buf h)) = [96, 10]"
    by auto
  from unpack_int_facts [OF i] h1 have h2: "buf h2 = buf h" "pos h2 = pos h + 4"
    "4 \<le> length (buf h) - pos h"
    by auto
  from unpack_bytes_facts [OF b] h2 have "buf h' = buf h" "pos h' = pos h + 4 + nat n"
    "nat n \<le> length (buf h) - (pos h + 4)" "s = take (nat n) (drop (pos h + 4) (buf h))"
    by auto
  with h1 h2 show ?thesis
    by auto
qed

section \<open>The DE block\<close>

text \<open>
  \<^verbatim>\<open>string_block\<close> (lines 469-477): the \<^verbatim>\<open>while True\<close> loop reads a u32 \<open>crc\<close>, leaves
  when \<open>255 > crc > 0\<close>, and otherwise reads a DE string, decodes it and appends its
  \<^verbatim>\<open>split(':')\<close>. Every turn consumes at least the four bytes of \<open>crc\<close>, so the loop
  ends on every buffer.
\<close>

function string_block_loop ::
  "stream \<Rightarrow> pystr list list \<Rightarrow> error + (pystr list list \<times> stream)" where
  "string_block_loop data strings =
     bind (unpack_int [(1, CI)] data) (\<lambda>(crc, data1).
       if 255 > crc \<and> crc > 0 then Inr (strings, data1)
       else
         bind (de_string data1) (\<lambda>(s, data2).
         bind (utf8_decode s) (\<lambda>u.
         string_block_loop data2 (strings @ [split_on (of_char CHR '':'') u]))))"
  by pat_completeness auto
termination
proof (relation "measure (\<lambda>(data, strings). length (buf data) - pos data)", goal_cases)
  case 1
  show ?case by simp
next
  case (2 data strings x crc data1 y s data2 u)
  from 2 have i: "unpack_int [(1, CI)] data = Inr (crc, data1)" by simp
  from 2 have d: "de_string data1 = Inr (s, data2)" by simp
  from unpack_int_facts [OF i] have "pos data1 = pos data + 4"
    and "4 \<le> length (buf data) - pos data" and "buf data1 = buf data"
    by simp_all
  moreover from de_string_facts [OF d] have "pos data2 = pos data1 + 4 + length s"
    and "buf data2 = buf data1"
    by simp_all
  ultimately show ?case
    by simp
qed

definition string_block :: "stream \<Rightarrow> error + (pystr list list \<times> stream)" where
  "string_block data = string_block_loop data []"

section \<open>Loops and floats\<close>

text \<open>\<^verbatim>\<open>for _ in range(n): body\<close> on the state the body changes (the stream and what it
  accumulates); \<open>for_range\<close> also hands the index to the body.\<close>

fun repeat :: "nat \<Rightarrow> ('s \<Rightarrow> error + 's) \<Rightarrow> 's \<Rightarrow> error + 's" where
  "repeat 0 body s = Inr s"
| "repeat (Suc n) body s = bind (body s) (repeat n body)"

fun for_range :: "nat \<Rightarrow> nat \<Rightarrow> (nat \<Rightarrow> 's \<Rightarrow> error + 's) \<Rightarrow> 's \<Rightarrow> error + 's" where
  "for_range i 0 body s = Inr s"
| "for_range i (Suc n) body s = bind (body i s) (for_range (Suc i) n body)"

text \<open>
  A Python float is a double. \<open>dbl q\<close> is the double nearest to the rational \<open>q\<close>, a tie
  going to the even mantissa: the value of a decimal literal of the source, and of a
  decimal string converted back to a float. \<open>exponent a\<close> is the binary exponent of
  \<open>a > 0\<close>; below \<open>2 ^ -1022\<close> the doubles are equally spaced. No number the parser
  handles is beyond the largest double.
\<close>

definition round_half_even :: "rat \<Rightarrow> int" where
  "round_half_even q =
     (let f = \<lfloor>q\<rfloor>; d = q - of_int f
      in if d < 1 / 2 then f else if 1 / 2 < d then f + 1 else if even f then f else f + 1)"

fun ilog2 :: "nat \<Rightarrow> nat" where
  "ilog2 n = (if n < 2 then 0 else Suc (ilog2 (n div 2)))"

declare ilog2.simps [simp del]

definition exponent :: "rat \<Rightarrow> int" where
  "exponent a =
     (if 1 \<le> a then int (ilog2 (nat \<lfloor>a\<rfloor>))
      else let k = ilog2 (nat \<lfloor>1 / a\<rfloor>) in if a * 2 ^ k = 1 then - int k else - int k - 1)"

definition dbl :: "rat \<Rightarrow> rat" where
  "dbl q =
     (if q = 0 then 0
      else
        let a = \<bar>q\<bar>;
            e = max (exponent a) (- 1022)
        in if 52 \<le> e
           then sgn q * of_int (round_half_even (a / 2 ^ nat (e - 52))) * 2 ^ nat (e - 52)
           else sgn q * of_int (round_half_even (a * 2 ^ nat (52 - e))) / 2 ^ nat (52 - e))"

text \<open>Comparisons of a float with a literal of the source: \<open>save >= t\<close>, \<open>save < t\<close>,
  \<open>save > t\<close>, \<open>save <= t\<close>, where the literal \<open>t\<close> denotes the double \<open>dbl t\<close>. Every
  comparison with NaN is false.\<close>

fun fge :: "pyfloat \<Rightarrow> rat \<Rightarrow> bool" where
  "fge (Finite q) t = (dbl t \<le> q)"
| "fge PosInf t = True"
| "fge NegInf t = False"
| "fge NaN t = False"

fun flt :: "pyfloat \<Rightarrow> rat \<Rightarrow> bool" where
  "flt (Finite q) t = (q < dbl t)"
| "flt PosInf t = False"
| "flt NegInf t = True"
| "flt NaN t = False"

fun fgt :: "pyfloat \<Rightarrow> rat \<Rightarrow> bool" where
  "fgt (Finite q) t = (dbl t < q)"
| "fgt PosInf t = True"
| "fgt NegInf t = False"
| "fgt NaN t = False"

fun fle :: "pyfloat \<Rightarrow> rat \<Rightarrow> bool" where
  "fle (Finite q) t = (q \<le> dbl t)"
| "fle PosInf t = False"
| "fle NegInf t = True"
| "fle NaN t = False"

text \<open>
  \<^verbatim>\<open>round(x, 2)\<close>: Python rounds the exact value of the float to two decimals, a tie to
  the even neighbour, and returns the double nearest to that decimal number.
  Infinities and NaN are returned as they are.
\<close>

fun round2 :: "pyfloat \<Rightarrow> pyfloat" where
  "round2 (Finite q) = Finite (dbl (of_int (round_half_even (q * 100)) / 100))"
| "round2 x = x"

text \<open>\<^verbatim>\<open>int(x)\<close> of a float truncates towards zero; it raises OverflowError on an
  infinity and ValueError on NaN.\<close>

fun int_of_float :: "pyfloat \<Rightarrow> error + int" where
  "int_of_float (Finite q) = Inr (if 0 \<le> q then \<lfloor>q\<rfloor> else \<lceil>q\<rceil>)"
| "int_of_float PosInf = Inl OverflowError"
| "int_of_float NegInf = Inl OverflowError"
| "int_of_float NaN = Inl ValueError"

text \<open>\<^verbatim>\<open>str(n)\<close> of an integer and \<^verbatim>\<open>sep.join(parts)\<close>.\<close>

fun digits :: "nat \<Rightarrow> pystr" where
  "digits n = (if n < 10 then [48 + n] else digits (n div 10) @ [48 + n mod 10])"

declare digits.simps [simp del]

definition str_int :: "int \<Rightarrow> pystr" where
  "str_int i = (if i < 0 then 45 # digits (nat (- i)) else digits (nat i))"

fun join :: "pystr \<Rightarrow> pystr list \<Rightarrow> pystr" where
  "join sep [] = []"
| "join sep [x] = x"
| "join sep (x # y # ys) = x @ sep @ join sep (y # ys)"

text \<open>\<^verbatim>\<open>bytes.decode('ascii')\<close>: a byte above 127 is a UnicodeDecodeError (a ValueError).\<close>

definition ascii_decode :: "byte list \<Rightarrow> error + pystr" where
  "ascii_decode bs =
     (if list_ex (\<lambda>b. 128 \<le> unat b) bs then Inl ValueError else Inr (map unat bs))"

section \<open>The version detector\<close>

text \<open>
  \<^verbatim>\<open>parse_version\<close> (lines 835-851). \<^verbatim>\<open>get_version\<close> is imported from \<^verbatim>\<open>mgz.util\<close>
  (the table of versions is external data): it is a parameter of the model.
\<close>

definition bytes_float :: "pyval list \<Rightarrow> error + (byte list \<times> pyfloat)" where
  "bytes_float vs =
     bind (tuple2 vs) (\<lambda>(a, b).
     bind (the_bytes a) (\<lambda>s.
     bind (the_float b) (\<lambda>f. Inr (s, f))))"

definition parse_version ::
  "(pystr \<Rightarrow> pyfloat \<Rightarrow> int \<Rightarrow> error + version) \<Rightarrow> stream \<Rightarrow> stream
     \<Rightarrow> error + ((version \<times> pystr \<times> pyfloat \<times> int) \<times> stream \<times> stream)" where
  "parse_version get_version header data =
     bind (unpack_int [(1, CI)] data) (\<lambda>(log, data).
     bind (unpack [(7, Cs), (1, Cx), (1, Cf)] header) (\<lambda>(vs, header).
     bind (bytes_float vs) (\<lambda>(game, save).
     bind (if save = Finite (- 1)
           then bind (unpack_int [(1, CI)] header) (\<lambda>(save, header).
                  if save = 37 then Inr (Finite 37, header)
                  else Inr (Finite (of_int save / 2 ^ 16), header))
           else Inr (save, header)) (\<lambda>(save, header).
     bind (ascii_decode game) (\<lambda>game_version.
     bind (get_version game_version (round2 save) log) (\<lambda>version.
     Inr ((version, game_version, round2 save, log), header, data)))))))"

section \<open>The Userpatch mod version\<close>

text \<open>
  \<^verbatim>\<open>parse_mod\<close> (lines 122-131). The helper returns a bare value for a tuple of one, so
  \<open>values[198]\<close> is a TypeError when exactly one float was read, and an IndexError
  when fewer than 199 were. For a version other than USERPATCH15 the function falls off
  its end and returns None.
\<close>

definition index_values :: "pyval list \<Rightarrow> nat \<Rightarrow> error + pyval" where
  "index_values values i =
     (if length values = 1 then Inl TypeError
      else if i < length values then Inr (values ! i)
      else Inl IndexError)"

definition parse_mod :: "stream \<Rightarrow> int \<Rightarrow> version \<Rightarrow> error + (pyval \<times> stream)" where
  "parse_mod header num_players version =
     (let cur = tell header in
      bind (unpack_int [(1, Cx), (1, Cx), (num_players, Cx), (36, Cx), (5, Cx), (1, Ch)] header)
        (\<lambda>(name_length, header).
      bind (unpack_int [(name_length + 1, Cx), (1, CI), (1, Cx)] header) (\<lambda>(resources, header).
      bind (unpack [(resources, Cf)] header) (\<lambda>(values, header).
      bind (seek header cur) (\<lambda>header.
      if version = USERPATCH15 then
        bind (index_values values 198) (\<lambda>v.
        bind (the_float v) (\<lambda>f.
        bind (int_of_float f) (\<lambda>number.
        Inr (PTuple [PInt (number div 1000),
                     PStr (join (str ''.'') (map (\<lambda>c. [c]) (str_int (number mod 1000))))],
             header))))
      else Inr (PNone, header))))))"

section \<open>The lobby block\<close>

text \<open>\<^verbatim>\<open>parse_lobby\<close> (lines 209-265). \<^verbatim>\<open>bytes.strip(b'\x00')\<close> removes the NUL bytes
  at both ends of a chat message.\<close>

definition strip0 :: "byte list \<Rightarrow> byte list" where
  "strip0 bs = rev (dropWhile (\<lambda>b. b = 0) (rev (dropWhile (\<lambda>b. b = 0) bs)))"

definition lobby_chat :: "byte list list \<times> stream \<Rightarrow> error + (byte list list \<times> stream)" where
  "lobby_chat = (\<lambda>(chat, data).
     bind (unpack_int [(1, CI)] data) (\<lambda>(n, data).
     let (bs, data) = read data n;
         message = strip0 bs
     in Inr (if length message > 0 then chat @ [message] else chat, data)))"

definition parse_lobby :: "stream \<Rightarrow> version \<Rightarrow> pyfloat \<Rightarrow> error + (pyval \<times> stream)" where
  "parse_lobby data version save =
     (let data =
        (if version = DE then
           (let data = skip data 5;
                data = skip_if (fge save 20.06) data 9;
                data = skip_if (fge save 26.16) data 5;
                data = skip_if (fge save 37) data 8;
                data = skip_if (fge save 64.3) data 16;
                data = skip_if (fge save 66.3) data 1
            in data)
         else data);
          data = skip data 8;
          data = skip_if (version \<noteq> DE \<and> version \<noteq> HD) data 1
      in
      bind (unpack [(1, CI), (4, Cx), (1, CI), (1, CI), (1, Cb), (1, Cb)] data) (\<lambda>(vs, data).
      bind (ints5 vs) (\<lambda>(reveal_map_id, map_size, population, game_type_id, lock_teams).
      let data =
        (if version = DE \<or> version = HD then
           (let data = skip data 5;
                data = skip_if (fge save 13.13) data 4;
                data = skip_if (fge save 25.22) data 1
            in data)
         else data)
      in
      bind (unpack_int [(1, CI)] data) (\<lambda>(chat_count, data).
      bind (repeat (nat chat_count) lobby_chat ([], data)) (\<lambda>(chat, data).
      bind (if version = DE
            then bind (unpack_int [(1, Ci)] data) (\<lambda>(seed, data). Inr (PInt seed, data))
            else Inr (PNone, data)) (\<lambda>(seed, data).
      Inr (PDict
            [(''reveal_map_id'', PInt reveal_map_id),
             (''map_size'', PInt map_size),
             (''population'',
                PInt (population * (if version \<noteq> DE \<and> version \<noteq> HD then 25 else 1))),
             (''game_type_id'', PInt game_type_id),
             (''lock_teams'', PBool (lock_teams = 1)),
             (''chat'', PList (map PBytes chat)),
             (''seed'', seed)],
           data)))))))"

text \<open>The bytes that \<^verbatim>\<open>parse_lobby\<close> skips before it reads the lobby struct.\<close>

definition lobby_prefix :: "version \<Rightarrow> pyfloat \<Rightarrow> nat" where
  "lobby_prefix version save =
     (if version = DE
      then 5 + (if fge save 20.06 then 9 else 0) + (if fge save 26.16 then 5 else 0)
           + (if fge save 37 then 8 else 0) + (if fge save 64.3 then 16 else 0)
           + (if fge save 66.3 then 1 else 0)
      else 0)
     + 8 + (if version \<noteq> DE \<and> version \<noteq> HD then 1 else 0)"

subsection \<open>The DE header\<close>

text \<open>\<^verbatim>\<open>str(uuid.UUID(bytes=guid))\<close>: the 16 bytes in lower-case hexadecimal, grouped
  8-4-4-4-12; anything but 16 bytes is a ValueError.\<close>

definition hex_digit :: "nat \<Rightarrow> nat" where
  "hex_digit n = (if n < 10 then 48 + n else 87 + n)"

definition hex :: "byte list \<Rightarrow> pystr" where
  "hex bs = concat (map (\<lambda>b. [hex_digit (unat b div 16), hex_digit (unat b mod 16)]) bs)"

definition uuid_str :: "byte list \<Rightarrow> error + pystr" where
  "uuid_str guid =
     (if length guid \<noteq> 16 then Inl ValueError
      else Inr (join (str ''-'')
             [hex (take 4 guid), hex (take 2 (drop 4 guid)), hex (take 2 (drop 6 guid)),
              hex (take 2 (drop 8 guid)), hex (drop 10 guid)]))"

text \<open>The loop over the string table (lines 714-717): an entry \<open>s\<close> is the list of the
  parts of one DE string, never empty; \<open>s[1]\<close> and \<open>s[3]\<close> raise IndexError when the entry
  is too short.\<close>

fun rms_loop :: "pystr list list \<Rightarrow> pyval \<times> pyval \<Rightarrow> error + (pyval \<times> pyval)" where
  "rms_loop [] r = Inr r"
| "rms_loop (s # ss) r =
     (case s of
        [] \<Rightarrow> Inl IndexError
      | s0 # rest \<Rightarrow>
          if s0 = str ''SUBSCRIBEDMODS'' then
            (if length s < 2 then Inl IndexError
             else if s ! 1 = str ''RANDOM_MAPS'' then
               (if length s < 4 then Inl IndexError
                else rms_loop ss
                       (PStr (hd (split_on (of_char CHR ''_'') (s ! 3))), PStr (s ! 2)))
             else rms_loop ss r)
          else rms_loop ss r)"

text \<open>One turn of the loop over the player slots (lines 555-607); the state is the list
  of slot records and the stream.\<close>

definition de_civ :: "int list \<times> stream \<Rightarrow> error + (int list \<times> stream)" where
  "de_civ = (\<lambda>(custom_civ_selection, data).
     bind (unpack_int [(1, CI)] data) (\<lambda>(civ, data).
     Inr (custom_civ_selection @ [civ], data)))"

definition de_player :: "pyfloat \<Rightarrow> pyval list \<times> stream \<Rightarrow> error + (pyval list \<times> stream)" where
  "de_player save = (\<lambda>(players, data).
     let data = skip data 4 in
     bind (unpack_int [(1, Ci)] data) (\<lambda>(color_id, data).
     let data = skip data 2 in
     bind (unpack_int [(1, Cb)] data) (\<lambda>(team_id, data).
     let data = skip data 9 in
     bind (unpack_int [(1, CI)] data) (\<lambda>(civilization_id, data).
     bind (if fge save 61.5 then
             bind (unpack_int [(1, CI)] data) (\<lambda>(custom_civ_count, data).
               if fge save 63.0 \<and> custom_civ_count > 0 then
                 bind (repeat (nat custom_civ_count) de_civ ([], data)) (\<lambda>(sel, data).
                 Inr (PList (map PInt sel), data))
               else Inr (PNone, data))
           else Inr (PNone, data)) (\<lambda>(custom_civ_selection, data).
     bind (de_string data) (\<lambda>(unused, data).
     let data = skip data 1 in
     bind (de_string data) (\<lambda>(ai_name, data).
     bind (if fge save 66.3
           then bind (de_string data) (\<lambda>(s, data). Inr (PBytes s, data))
           else Inr (PNone, data)) (\<lambda>(censored_name, data).
     bind (de_string data) (\<lambda>(name, data).
     bind (unpack_int [(1, CI)] data) (\<lambda>(type, data).
     bind (unpack [(1, CI), (4, Cx), (1, Ci)] data) (\<lambda>(vs, data).
     bind (ints2 vs) (\<lambda>(profile_id, number).
     let data = skip_if (flt save 25.22) data 8 in
     bind (unpack_int [(1, Cb)] data) (\<lambda>(prefer_random, data).
     let data = skip data 1;
         data = skip_if (fge save 25.06) data 8;
         data = skip_if (fge save 64.3) data 4
     in
     bind (if fge save 67.2
           then bind (de_string data) (\<lambda>(unused, data). Inr data)
           else Inr data) (\<lambda>data.
     Inr (players @
            [PDict
              [(''number'', PInt number),
               (''color_id'', PInt color_id),
               (''team_id'', PInt team_id),
               (''ai_name'', PBytes ai_name),
               (''name'', PBytes name),
               (''censored_name'', if fge save 66.3 then censored_name else PBytes name),
               (''type'', PInt type),
               (''profile_id'', PInt profile_id),
               (''civilization_id'', PInt civilization_id),
               (''custom_civ_selection'', custom_civ_selection),
               (''prefer_random'', PBool (prefer_random = 1))]],
          data)))))))))))))))"

text \<open>An empty slot (lines 613-623), an entry of the list of unknown records
  (lines 652-655), and one more string block (line 639).\<close>

definition de_empty_slot :: "pyfloat \<Rightarrow> stream \<Rightarrow> error + stream" where
  "de_empty_slot save data =
     (let data = skip_if (fge save 61.5) data 4;
          data = skip data 12
      in
      bind (de_string data) (\<lambda>(unused, data).
      let data = skip data 1 in
      bind (de_string data) (\<lambda>(unused, data).
      bind (de_string data) (\<lambda>(unused, data).
      let data = skip data 38;
          data = skip_if (fge save 64.3) data 4
      in Inr data))))"

definition de_unknown_entry :: "stream \<Rightarrow> error + stream" where
  "de_unknown_entry data =
     (let data = skip data 4 in
      bind (de_string data) (\<lambda>(unused, data).
      let data = skip data 4 in Inr data))"

definition de_dlc :: "int list \<times> stream \<Rightarrow> error + (int list \<times> stream)" where
  "de_dlc = (\<lambda>(dlc_ids, data).
     bind (unpack_int [(1, CI)] data) (\<lambda>(dlc, data).
     Inr (dlc_ids @ [dlc], data)))"

definition de_strings :: "pystr list list \<times> stream \<Rightarrow> error + (pystr list list \<times> stream)" where
  "de_strings = (\<lambda>(strings, data).
     bind (string_block data) (\<lambda>(more, data).
     Inr (strings @ more, data)))"

text \<open>
  \<^verbatim>\<open>parse_de\<close> (lines 480-755), in two parts. The first part (lines 486-551) reads
  the game settings into the local variables that the result is built from; they are
  the fields of \<open>de_settings\<close>, named with the prefix \<open>de_\<close>. \<open>difficulty_id\<close> is the u32 read before the map id for a
  save below 61.5 and the u8 read after the player count from 61.5 on.
\<close>

record de_settings =
  de_build :: pyval
  de_timestamp :: pyval
  de_dlc_ids :: "int list"
  de_difficulty_id :: int
  de_rms_map_id :: int
  de_victory_type_id :: int
  de_starting_resources_id :: int
  de_starting_age_id :: int
  de_ending_age_id :: int
  de_speed :: pyfloat
  de_treaty_length :: int
  de_population_limit :: int
  de_num_players :: int
  de_random_positions :: int
  de_all_technologies :: int
  de_lock_teams :: int
  de_lock_speed :: int
  de_multiplayer :: int
  de_cheats :: int
  de_record_game :: int
  de_animals_enabled :: int
  de_predators_enabled :: int
  de_turbo_enabled :: int
  de_shared_exploration :: int
  de_team_positions :: int

definition parse_de_settings ::
  "stream \<Rightarrow> pyfloat \<Rightarrow> bool \<Rightarrow> error + (de_settings \<times> stream)" where
  "parse_de_settings data save skp =
     bind (if fge save 25.22 \<and> \<not> skp
           then bind (unpack_int [(1, CI)] data) (\<lambda>(build, data). Inr (PInt build, data))
           else Inr (PNone, data)) (\<lambda>(build, data).
     bind (if fge save 26.16 \<and> \<not> skp
           then bind (unpack_int [(1, CI)] data) (\<lambda>(ts, data). Inr (PInt ts, data))
           else Inr (PNone, data)) (\<lambda>(timestamp, data).
     let data = skip data 12 in
     bind (unpack_int [(1, CI)] data) (\<lambda>(dlc_count, data).
     bind (repeat (nat dlc_count) de_dlc ([], data)) (\<lambda>(dlc_ids, data).
     let data = skip data 4 in
     bind (unpack_int [(1, CI)] data) (\<lambda>(map_dimension_or_difficulty_id, data).
     let data = skip data 4 in
     bind (unpack_int [(1, CI)] data) (\<lambda>(rms_map_id, data).
     let data = skip data 4 in
     bind (unpack_int [(1, CI)] data) (\<lambda>(victory_type_id, data).
     bind (unpack_int [(1, CI)] data) (\<lambda>(starting_resources_id, data).
     bind (unpack_int [(1, CI)] data) (\<lambda>(starting_age_id, data).
     bind (unpack_int [(1, CI)] data) (\<lambda>(ending_age_id, data).
     let data = skip data 12 in
     bind (unpack [(1, Cf)] data) (\<lambda>(vs, data).
     bind (bind (tuple1 vs) the_float) (\<lambda>speed.
     bind (unpack_int [(1, CI)] data) (\<lambda>(treaty_length, data).
     bind (unpack_int [(1, CI)] data) (\<lambda>(population_limit, data).
     bind (unpack_int [(1, CI)] data) (\<lambda>(num_players, data).
     let data = skip data 14 in
     bind (if fge save 61.5
           then unpack_int [(1, CB)] data
           else Inr (map_dimension_or_difficulty_id, data)) (\<lambda>(difficulty_id, data).
     bind (unpack [(1, Cb), (1, Cb)] data) (\<lambda>(vs, data).
     bind (ints2 vs) (\<lambda>(random_positions, all_technologies).
     let data = skip data 1 in
     bind (unpack_int [(1, Cb)] data) (\<lambda>(lock_teams, data).
     bind (unpack_int [(1, Cb)] data) (\<lambda>(lock_speed, data).
     bind (unpack_int [(1, Cb)] data) (\<lambda>(multiplayer, data).
     bind (unpack_int [(1, Cb)] data) (\<lambda>(cheats, data).
     bind (unpack_int [(1, Cb)] data) (\<lambda>(record_game, data).
     bind (unpack_int [(1, Cb)] data) (\<lambda>(animals_enabled, data).
     bind (unpack_int [(1, Cb)] data) (\<lambda>(predators_enabled, data).
     bind (unpack_int [(1, Cb)] data) (\<lambda>(turbo_enabled, data).
     bind (unpack_int [(1, Cb)] data) (\<lambda>(shared_exploration, data).
     bind (unpack_int [(1, Cb)] data) (\<lambda>(team_positions, data).
     let data = skip data 12;
         data = skip_if (fge save 25.06) data 1;
         data = skip_if (fgt save 50) data 1
     in
     Inr (\<lparr>de_build = build, de_timestamp = timestamp, de_dlc_ids = dlc_ids,
            de_difficulty_id = difficulty_id, de_rms_map_id = rms_map_id,
            de_victory_type_id = victory_type_id,
            de_starting_resources_id = starting_resources_id,
            de_starting_age_id = starting_age_id, de_ending_age_id = ending_age_id,
            de_speed = speed, de_treaty_length = treaty_length,
            de_population_limit = population_limit, de_num_players = num_players,
            de_random_positions = random_positions, de_all_technologies = all_technologies,
            de_lock_teams = lock_teams, de_lock_speed = lock_speed, de_multiplayer = multiplayer,
            de_cheats = cheats, de_record_game = record_game,
            de_animals_enabled = animals_enabled, de_predators_enabled = predators_enabled,
            de_turbo_enabled = turbo_enabled, de_shared_exploration = shared_exploration,
            de_team_positions = team_positions\<rparr>,
          data)))))))))))))))))))))))))))))"

text \<open>
  The second part (lines 552-755): the player slots, the lobby flags, the string
  table, the GUID and the names, and the record. The result is None for a version
  other than DE. The record is built after the last read: the loop over the string
  table, then the UUID of the GUID and the UTF-8 decoding of the lobby and mod names,
  in the order of the arguments of \<^verbatim>\<open>dict\<close>. The last timestamp read, when there is one,
  replaces the first.
\<close>

definition parse_de :: "stream \<Rightarrow> version \<Rightarrow> pyfloat \<Rightarrow> bool \<Rightarrow> error + (pyval \<times> stream)" where
  "parse_de data version save skp =
     (if version \<noteq> DE then Inr (PNone, data)
      else
      bind (parse_de_settings data save skp) (\<lambda>(s, data).
      let num_player_entries = (if flt save 66.3 \<and> fge save 37 then de_num_players s else 8) in
      bind (repeat (nat num_player_entries) (de_player save) ([], data)) (\<lambda>(players, data).
      let data = skip data 12 in
      bind (if flt save 66.3 \<and> fge save 37
            then repeat (nat (8 - de_num_players s)) (de_empty_slot save) data
            else Inr data) (\<lambda>data.
      let data = skip data 4 in
      bind (unpack_int [(1, Cb)] data) (\<lambda>(rated, data).
      bind (unpack_int [(1, Cb)] data) (\<lambda>(allow_specs, data).
      bind (unpack_int [(1, CI)] data) (\<lambda>(visibility, data).
      bind (unpack_int [(1, Cb)] data) (\<lambda>(hidden_civs, data).
      let data = skip data 1 in
      bind (unpack_int [(1, CI)] data) (\<lambda>(spec_delay, data).
      let data = skip data 1 in
      bind (string_block data) (\<lambda>(strings, data).
      let data = skip data 8 in
      bind (repeat 20 de_strings (strings, data)) (\<lambda>(strings, data).
      let data = skip data 4;
          data = skip_if (flt save 25.22) data 236
      in
      bind (if fge save 25.22
            then bind (unpack_int [(1, CI)] (seek_cur data (- 4))) (\<lambda>(l, data).
                 Inr (skip data (l * 4)))
            else Inr data) (\<lambda>data.
      bind (unpack_int [(1, CQ)] data) (\<lambda>(unknown_entries, data).
      bind (repeat (nat unknown_entries) de_unknown_entry data) (\<lambda>data.
      let data = skip_if (fge save 25.02) data 8 in
      bind (Inr (read data 16)) (\<lambda>(guid, data).
      bind (de_string data) (\<lambda>(lobby, data).
      let data = skip_if (fge save 25.22) data 8 in
      bind (de_string data) (\<lambda>(mod_name, data).
      let data = skip data 33;
          data = skip_if (fge save 20.06) data 1;
          data = skip_if (fge save 20.16) data 8;
          data = skip_if (fge save 25.06) data 21;
          data = skip_if (fge save 25.22) data 4;
          data = skip_if (fge save 26.16) data 8;
          data = skip_if (fge save 37) data 3;
          data = skip_if (fgt save 50) data 8;
          data = skip_if (fge save 61.5) data 1;
          data = skip_if (fge save 63) data 5
      in
      bind (if fge save 66.3
            then bind (unpack_int [(1, CI)] data) (\<lambda>(c, data).
                 Inr (skip (skip data 12) (c * 4)))
            else Inr data) (\<lambda>data.
      bind (if \<not> skp
            then bind (de_string data) (\<lambda>(unused, data). Inr data)
            else Inr data) (\<lambda>data.
      bind (if fge save 67.2
            then bind (de_string data) (\<lambda>(unused, data).
                 bind (de_string data) (\<lambda>(unused, data). Inr data))
            else Inr data) (\<lambda>data.
      let data = skip data 8 in
      bind (if \<not> skp \<and> fge save 37
            then bind (unpack [(1, CI), (1, CI)] data) (\<lambda>(vs, data).
                 bind (ints2 vs) (\<lambda>(ts, x). Inr (PInt ts, data)))
            else Inr (de_timestamp s, data)) (\<lambda>(timestamp, data).
      bind (rms_loop strings (PNone, PNone)) (\<lambda>(rms_mod_id, rms_filename).
      bind (uuid_str guid) (\<lambda>guid_str.
      bind (utf8_decode lobby) (\<lambda>lobby_str.
      bind (utf8_decode mod_name) (\<lambda>mod_str.
      Inr (PDict
            [(''players'', PList players),
             (''guid'', PStr guid_str),
             (''hash'', PSha1 guid),
             (''lobby'', PStr lobby_str),
             (''mod'', PStr mod_str),
             (''difficulty_id'', PInt (de_difficulty_id s)),
             (''victory_type_id'', PInt (de_victory_type_id s)),
             (''starting_resources_id'', PInt (de_starting_resources_id s)),
             (''starting_age_id'',
                PInt (if de_starting_age_id s > 0 then de_starting_age_id s - 2 else 0)),
             (''ending_age_id'',
                PInt (if de_ending_age_id s > 0 then de_ending_age_id s - 2 else 0)),
             (''speed'', PFloat (de_speed s)),
             (''population_limit'', PInt (de_population_limit s)),
             (''treaty_length'', PInt (de_treaty_length s)),
             (''team_together'', PBool (\<not> de_random_positions s \<noteq> 0)),
             (''all_technologies'', PBool (de_all_technologies s \<noteq> 0)),
             (''lock_teams'', PBool (de_lock_teams s \<noteq> 0)),
             (''lock_speed'', PBool (de_lock_speed s \<noteq> 0)),
             (''multiplayer'', PBool (de_multiplayer s \<noteq> 0)),
             (''cheats'', PBool (de_cheats s \<noteq> 0)),
             (''record_game'', PBool (de_record_game s \<noteq> 0)),
             (''animals_enabled'', PBool (de_animals_enabled s \<noteq> 0)),
             (''predators_enabled'', PBool (de_predators_enabled s \<noteq> 0)),
             (''turbo_enabled'', PBool (de_turbo_enabled s \<noteq> 0)),
             (''shared_exploration'', PBool (de_shared_exploration s \<noteq> 0)),
             (''team_positions'', PBool (de_team_positions s \<noteq> 0)),
             (''build'', de_build s),
             (''timestamp'', timestamp),
             (''spec_delay'', PInt spec_delay),
             (''rated'', PBool (rated = 1)),
             (''allow_specs'', PBool (allow_specs \<noteq> 0)),
             (''hidden_civs'', PBool (hidden_civs \<noteq> 0)),
             (''visibility_id'', PInt visibility),
             (''rms_mod_id'', rms_mod_id),
             (''rms_map_id'', PInt (de_rms_map_id s)),
             (''rms_filename'', rms_filename),
             (''dlc_ids'', PList (map PInt (de_dlc_ids s)))],
           data))))))))))))))))))))))))))"

section \<open>Reading the output\<close>

text \<open>A record of the output is a \<^verbatim>\<open>dict\<close> built from keyword arguments: its keys are
  distinct, and \<open>dict_get d k\<close> is \<^verbatim>\<open>d[k]\<close> when there is one.\<close>

definition dict_get :: "pyval \<Rightarrow> string \<Rightarrow> pyval option" where
  "dict_get d k = (case d of PDict kvs \<Rightarrow> map_of kvs k | _ \<Rightarrow> None)"

text \<open>A player slot of the DE block has a \<open>name\<close>, and its \<open>censored_name\<close> is that name.\<close>

definition censored_is_name :: "pyval \<Rightarrow> bool" where
  "censored_is_name p \<longleftrightarrow>
     (case dict_get p ''name'' of
        Some (PBytes name) \<Rightarrow> dict_get p ''censored_name'' = Some (PBytes name)
      | _ \<Rightarrow> False)"

section \<open>Searching the raw bytes\<close>

text \<open>
  \<open>search P xs\<close> is the first index at which the rest of \<open>xs\<close> satisfies \<open>P\<close>: the start of
  the leftmost match of a pattern that \<open>P\<close> recognises at the head of a list.
  \<open>starts sub\<close> recognises a literal; every literal the parser looks for is non-empty.
\<close>

fun search :: "('a list \<Rightarrow> bool) \<Rightarrow> 'a list \<Rightarrow> nat option" where
  "search P [] = (if P [] then Some 0 else None)"
| "search P (x # xs) = (if P (x # xs) then Some 0 else map_option Suc (search P xs))"

definition starts :: "'a list \<Rightarrow> 'a list \<Rightarrow> bool" where
  "starts sub xs = (take (length sub) xs = sub)"

text \<open>An index of a Python slice or of the start of a search, counted from the end when
  it is negative, and cut to the sequence.\<close>

definition py_index :: "nat \<Rightarrow> int \<Rightarrow> nat" where
  "py_index n i = (if i < 0 then nat (int n + i) else min (nat i) n)"

definition slice :: "'a list \<Rightarrow> int \<Rightarrow> int \<Rightarrow> 'a list" where
  "slice xs i j =
     (let a = py_index (length xs) i; b = py_index (length xs) j
      in take (b - a) (drop a xs))"

text \<open>\<^verbatim>\<open>bytes.find(sub, start)\<close>: the lowest index from \<open>start\<close> on where \<open>sub\<close> begins,
  or -1.\<close>

definition find :: "byte list \<Rightarrow> byte list \<Rightarrow> int \<Rightarrow> int" where
  "find xs sub start =
     (let a = py_index (length xs) start
      in case search (starts sub) (drop a xs) of
           None \<Rightarrow> - 1
         | Some i \<Rightarrow> int (a + i))"

text \<open>
  The regular expressions of the parser have a fixed length: a byte, any byte
  (\<^verbatim>\<open>.\<close> under \<^verbatim>\<open>DOTALL\<close>, \<^verbatim>\<open>[\x00-\xff]\<close>), one byte of a set, or any byte but one.
  \<open>matches\<close> recognises such a pattern at the head of a list.
\<close>

datatype atom = Byte byte | Dot | OneOf "byte list" | Except byte

fun atom_ok :: "atom \<Rightarrow> byte \<Rightarrow> bool" where
  "atom_ok (Byte b) x = (x = b)"
| "atom_ok Dot x = True"
| "atom_ok (OneOf bs) x = (x \<in> set bs)"
| "atom_ok (Except b) x = (x \<noteq> b)"

fun matches :: "atom list \<Rightarrow> byte list \<Rightarrow> bool" where
  "matches [] xs = True"
| "matches (a # as) [] = False"
| "matches (a # as) (x # xs) = (if atom_ok a x then matches as xs else False)"

text \<open>\<^verbatim>\<open>pattern.search(data, pos, endpos)\<close>: the start of the leftmost match in
  \<open>data[:endpos]\<close> from \<open>pos\<close> on; a look-ahead does not see beyond \<open>endpos\<close>.\<close>

definition re_search :: "(byte list \<Rightarrow> bool) \<Rightarrow> byte list \<Rightarrow> int \<Rightarrow> int \<Rightarrow> nat option" where
  "re_search P data start endpos =
     map_option (\<lambda>i. nat start + i) (search P (drop (nat start) (take (nat endpos) data)))"

section \<open>The HD block\<close>

text \<open>\<^verbatim>\<open>parse_hd\<close> (lines 758-820): None unless the version is HD and the save version
  is above 12.34. A slot without a name is left out of the list of players.\<close>

definition hd_player :: "pyval list \<times> stream \<Rightarrow> error + (pyval list \<times> stream)" where
  "hd_player = (\<lambda>(players, data).
     let data = skip data 4 in
     bind (unpack_int [(1, Ci)] data) (\<lambda>(color_id, data).
     let data = skip data 12 in
     bind (unpack_int [(1, CI)] data) (\<lambda>(civilization_id, data).
     bind (hd_string data) (\<lambda>(unused, data).
     let data = skip data 1 in
     bind (hd_string data) (\<lambda>(unused, data).
     bind (hd_string data) (\<lambda>(name, data).
     let data = skip data 4 in
     bind (unpack [(1, CQ), (1, Ci)] data) (\<lambda>(vs, data).
     bind (ints2 vs) (\<lambda>(steam_id, number).
     let data = skip data 8 in
     Inr (if name \<noteq> [] then
            players @
              [PDict
                [(''number'', PInt number),
                 (''color_id'', PInt color_id),
                 (''name'', PBytes name),
                 (''profile_id'', PInt steam_id),
                 (''civilization_id'', PInt civilization_id)]]
          else players,
          data)))))))))"

definition parse_hd :: "stream \<Rightarrow> version \<Rightarrow> pyfloat \<Rightarrow> error + (pyval \<times> stream)" where
  "parse_hd data version save =
     (if version \<noteq> HD \<or> fle save 12.34 then Inr (PNone, data)
      else
      let data = skip data 12 in
      bind (unpack_int [(1, CI)] data) (\<lambda>(dlc_count, data).
      let data = skip data (dlc_count * 4);
          data = skip data 4
      in
      bind (unpack [(1, CI), (1, CI)] data) (\<lambda>(vs, data).
      bind (ints2 vs) (\<lambda>(difficulty_id, map_id).
      let data = skip data 80 in
      bind (repeat 8 hd_player ([], data)) (\<lambda>(players, data).
      let data = skip data 26 in
      bind (hd_string data) (\<lambda>(unused, data).
      let data = skip data 8 in
      bind (hd_string data) (\<lambda>(unused, data).
      let data = skip data 8 in
      bind (hd_string data) (\<lambda>(unused, data).
      let data = skip data 8 in
      bind (Inr (read data 16)) (\<lambda>(guid, data).
      bind (hd_string data) (\<lambda>(lobby, data).
      bind (hd_string data) (\<lambda>(mod_name, data).
      let data = skip data 8 in
      bind (hd_string data) (\<lambda>(unused, data).
      let data = skip data 4 in
      bind (uuid_str guid) (\<lambda>guid_str.
      bind (utf8_decode lobby) (\<lambda>lobby_str.
      bind (utf8_decode mod_name) (\<lambda>mod_str.
      Inr (PDict
            [(''players'', PList players),
             (''guid'', PStr guid_str),
             (''lobby'', PStr lobby_str),
             (''mod'', PStr mod_str),
             (''map_id'', PInt map_id),
             (''difficulty_id'', PInt difficulty_id)],
           data))))))))))))))))"

section \<open>The metadata block\<close>

text \<open>\<^verbatim>\<open>parse_metadata\<close> (lines 889-927). The end of the AI data is the first run of
  4096 NUL bytes. The result is the record and the number of players.\<close>

definition metadata_fields :: "pyval list \<Rightarrow> error + (pyfloat \<times> int \<times> int \<times> int)" where
  "metadata_fields vs =
     bind (tuple4 vs) (\<lambda>(a, b, c, d).
     bind (the_float a) (\<lambda>game_speed.
     bind (the_int b) (\<lambda>owner_id.
     bind (the_int c) (\<lambda>num_players.
     bind (the_int d) (\<lambda>cheats.
     Inr (game_speed, owner_id, num_players, cheats))))))"

definition parse_metadata ::
  "stream \<Rightarrow> pyfloat \<Rightarrow> bool \<Rightarrow> error + ((pyval \<times> int) \<times> stream)" where
  "parse_metadata header save skip_ai =
     bind (unpack_int [(1, CI)] header) (\<lambda>(ai, header).
     bind (if ai > 0 then
             (if \<not> skip_ai then Inl (RuntimeError ''don't know how to parse ai'')
              else
                let offset = tell header;
                    (data, header) = read header (- 1)
                in case search (starts (replicate 4096 0)) data of
                     None \<Rightarrow> Inl (RuntimeError ''could not find ai end'')
                   | Some ai_start \<Rightarrow> seek header (offset + int ai_start + 4096))
           else Inr header) (\<lambda>header.
     bind (unpack [(24, Cx), (1, Cf), (17, Cx), (1, Ch), (1, Cb), (1, Cx), (1, Cb)] header)
       (\<lambda>(vs, header).
     bind (metadata_fields vs) (\<lambda>(game_speed, owner_id, num_players, cheats).
     let header = (if flt save 61.5 then skip header 60
                   else skip header (24 + num_players * 4))
     in
     Inr ((PDict
            [(''speed'', PFloat game_speed),
             (''owner_id'', PInt owner_id),
             (''cheats'', PBool (cheats = 1))],
           num_players),
          header)))))"

section \<open>The map\<close>

text \<open>\<^verbatim>\<open>parse_map\<close> (lines 268-316). A tile is the pair that its format reads.
  \<^verbatim>\<open>read(n)\<close> raises OverflowError for a count beyond the largest index, \<open>2 ^ 63 - 1\<close> on
  the 64-bit platforms; in the whole parser only the counts that are a product of two
  u32 fields, here, can be that large.\<close>

definition skip_big :: "stream \<Rightarrow> int \<Rightarrow> error + stream" where
  "skip_big data n = (if n > 2 ^ 63 - 1 then Inl OverflowError else Inr (skip data n))"

definition map_zone :: "version \<Rightarrow> int \<Rightarrow> stream \<Rightarrow> error + stream" where
  "map_zone version tile_num data =
     bind (if version = DE \<or> version = HD then skip_big data (2048 + tile_num * 2)
           else skip_big data (1275 + tile_num)) (\<lambda>data.
     bind (unpack_int [(1, CI)] data) (\<lambda>(num_floats, data).
     let data = skip data (num_floats * 4);
         data = skip data 4
     in Inr data))"

definition map_tile :: "(int \<times> code) list \<Rightarrow> pyval list \<times> stream \<Rightarrow> error + (pyval list \<times> stream)"
  where
  "map_tile tile_format = (\<lambda>(tiles, data).
     bind (unpack tile_format data) (\<lambda>(vs, data).
     Inr (tiles @ [PTuple vs], data)))"

definition map_obstruction :: "stream \<Rightarrow> error + stream" where
  "map_obstruction data =
     bind (unpack_int [(1, CI)] data) (\<lambda>(num_obs, data).
     Inr (skip data (num_obs * 8)))"

definition parse_map :: "stream \<Rightarrow> version \<Rightarrow> pyfloat \<Rightarrow> error + (pyval \<times> stream)" where
  "parse_map data version save =
     (let tile_format =
            (if version = DE then
               (if fge save 62.0 then [(1, Cb), (1, Cx), (1, Cx), (1, Cb), (6, Cx)]
                else [(1, Cb), (1, Cx), (1, Cb), (6, Cx)])
             else [(1, Cx), (1, Cb), (1, Cb), (1, Cx)]);
          data = skip_if (version = DE) data 8
      in
      bind (unpack [(1, CI), (1, CI), (1, CI)] data) (\<lambda>(vs, data).
      bind (ints3 vs) (\<lambda>(size_x, size_y, zone_num).
      let tile_num = size_x * size_y in
      bind (repeat (nat zone_num) (map_zone version tile_num) data) (\<lambda>data.
      bind (unpack_int [(1, Cb), (1, Cx)] data) (\<lambda>(all_visible, data).
      bind (repeat (nat tile_num) (map_tile tile_format) ([], data)) (\<lambda>(tiles, data).
      bind (unpack_int [(1, CI), (4, Cx)] data) (\<lambda>(num_data, data).
      let data = skip data (num_data * 4) in
      bind (repeat (nat num_data) map_obstruction data) (\<lambda>data.
      bind (unpack [(1, CI), (1, CI)] data) (\<lambda>(vs, data).
      bind (ints2 vs) (\<lambda>(x2, y2).
      bind (skip_big data (x2 * y2 * 4)) (\<lambda>data.
      bind (if fge save 61.5 then skip_big data (x2 * y2 * 4) else Inr data) (\<lambda>data.
      bind (unpack_int [(1, CI)] data) (\<lambda>(restore_time, data).
      Inr (PDict
            [(''all_visible'', PBool (all_visible = 1)),
             (''restore_time'', PInt restore_time),
             (''dimension'', PInt size_x),
             (''tiles'', PList tiles)],
           data))))))))))))))"

section \<open>The players\<close>

text \<open>
  A stage that holds a loop which may run forever returns an \<open>option\<close>: \<open>None\<close> when it
  does not return, \<open>Some\<close> of the error or the result when it does.
\<close>

definition obind :: "(error + 'a) option \<Rightarrow> ('a \<Rightarrow> (error + 'b) option) \<Rightarrow> (error + 'b) option"
  where
  "obind m f = (case m of None \<Rightarrow> None | Some (Inl e) \<Rightarrow> Some (Inl e) | Some (Inr x) \<Rightarrow> f x)"

subsection \<open>Objects\<close>

text \<open>\<^verbatim>\<open>struct.unpack_from(fmt, data, offset)\<close>: a negative offset counts from the end;
  an offset before the start, or fewer bytes left than the format needs, is a
  \<^verbatim>\<open>struct.error\<close>.\<close>

definition unpack_from :: "(int \<times> code) list \<Rightarrow> byte list \<Rightarrow> int \<Rightarrow> error + pyval list" where
  "unpack_from fmt data offset =
     bind (calcsize fmt) (\<lambda>n.
       let off = (if offset < 0 then offset + int (length data) else offset)
       in if off < 0 \<or> int (length data) - off < int n then Inl StructError
          else Inr (decode fmt (take n (drop (nat off) data))))"

text \<open>\<^verbatim>\<open>parse_object\<close> (lines 80-91), and \<^verbatim>\<open>dict(d, index=index)\<close>.\<close>

definition object_fields :: "pyval list \<Rightarrow> error + (int \<times> int \<times> int \<times> pyfloat \<times> pyfloat)" where
  "object_fields vs =
     bind (tuple5 vs) (\<lambda>(a, b, c, d, e).
     bind (the_int a) (\<lambda>class_id.
     bind (the_int b) (\<lambda>object_id.
     bind (the_int c) (\<lambda>instance_id.
     bind (the_float d) (\<lambda>pos_x.
     bind (the_float e) (\<lambda>pos_y.
     Inr (class_id, object_id, instance_id, pos_x, pos_y)))))))"

definition parse_object :: "byte list \<Rightarrow> int \<Rightarrow> error + pyval" where
  "parse_object data offset =
     bind (unpack_from
             [(1, Cb), (1, Cx), (1, CH), (14, Cx), (1, CI), (1, Cx), (1, Cf), (1, Cf)]
             data offset) (\<lambda>vs.
     bind (object_fields vs) (\<lambda>(class_id, object_id, instance_id, pos_x, pos_y).
     Inr (PDict
           [(''class_id'', PInt class_id),
            (''object_id'', PInt object_id),
            (''instance_id'', PInt instance_id),
            (''position'', PDict [(''x'', PFloat pos_x), (''y'', PFloat pos_y)])])))"

fun dict_add :: "pyval \<Rightarrow> string \<Rightarrow> pyval \<Rightarrow> pyval" where
  "dict_add (PDict kvs) k v = PDict (kvs @ [(k, v)])"
| "dict_add d k v = d"

text \<open>
  The constants of lines 28-42. \<^verbatim>\<open>PLAYER_END\<close> is eight \<^verbatim>\<open>ff\<close>, any byte, sixteen NUL
  and \<^verbatim>\<open>0b\<close>. The expression that finds an object of player \<open>i\<close> is a class byte, the
  byte \<open>i\<close>, four bytes that start neither with \<^verbatim>\<open>ff ff\<close> nor with \<^verbatim>\<open>00 00\<close>, four
  \<^verbatim>\<open>ff\<close> and a byte that is not \<^verbatim>\<open>ff\<close>; there is one for each \<open>i\<close> from 0 to 8, and
  any other player number is a KeyError.
\<close>

definition PLAYER_END :: "atom list" where
  "PLAYER_END = replicate 8 (Byte 255) @ [Dot] @ replicate 16 (Byte 0) @ [Byte 11]"

definition CLASSES :: "byte list" where
  "CLASSES = [10, 30, 70, 80, 20]"

definition BLOCK_END :: "byte list" where
  "BLOCK_END = [0, 11]"

definition object_regex :: "int \<Rightarrow> byte list \<Rightarrow> bool" where
  "object_regex i xs =
     (if matches [OneOf CLASSES, Byte (word_of_int i)] xs
      then \<not> starts [255, 255] (drop 2 xs) \<and> \<not> starts [0, 0] (drop 2 xs)
           \<and> matches (replicate 4 Dot @ replicate 4 (Byte 255) @ [Except 255]) (drop 2 xs)
      else False)"

definition REGEXES :: "int \<Rightarrow> error + (byte list \<Rightarrow> bool)" where
  "REGEXES i = (if 0 \<le> i \<and> i \<le> 8 then Inr (object_regex i) else Inl KeyError)"

definition object_start :: "atom list" where
  "object_start = [Byte 11, Byte 0, Dot, Byte 0, Byte 0, Byte 0, Byte 2, Byte 0, Byte 0]"

text \<open>
  \<^verbatim>\<open>object_block\<close> (lines 94-119). \<open>offset\<close> is None at the start of every turn of the
  outer loop, so every turn searches. The inner loop (lines 105-106) moves \<open>end\<close> to
  the next \<^verbatim>\<open>BLOCK_END\<close> until it is within 8 bytes of the match; when there is no
  further \<^verbatim>\<open>BLOCK_END\<close> the search starts over from the front and the loop may not end.
  The loop over \<^verbatim>\<open>SKIP_OBJECTS\<close> only leaves an object out: the \<open>offset\<close> it binds is
  overwritten before it is read. \<open>endv\<close> is the variable \<open>end\<close> and \<open>posn\<close> is \<open>pos\<close>.
\<close>

partial_function (option) block_end_loop :: "byte list \<Rightarrow> int \<Rightarrow> int \<Rightarrow> int \<Rightarrow> int option" where
  "block_end_loop data posn endv offset =
     (if endv + 8 < offset
      then block_end_loop data posn
             (endv + (find data BLOCK_END (posn + endv) - (posn + endv) + 2)) offset
      else Some endv)"

partial_function (option) object_loop ::
  "(byte list \<Rightarrow> bool) \<Rightarrow> byte list \<Rightarrow> int \<Rightarrow> pyval list \<Rightarrow> int
     \<Rightarrow> (error + (pyval list \<times> int)) option" where
  "object_loop regex data index objects posn =
     (let match = re_search regex data posn (posn + 10000);
          endv = find data BLOCK_END posn - posn + 2
      in case match of
           None \<Rightarrow> Some (Inr (objects, posn + endv))
         | Some match_start \<Rightarrow>
             let offset = int match_start - posn in
             (case block_end_loop data posn endv offset of
                None \<Rightarrow> None
              | Some endv \<Rightarrow>
                  if endv + 8 = offset then Some (Inr (objects, posn + endv))
                  else
                    let posn = posn + offset;
                        test = slice data posn (posn + 4)
                    in if test = [30, 0, 135, 2]
                       then object_loop regex data index objects (posn + 31)
                       else (case parse_object data posn of
                               Inl e \<Rightarrow> Some (Inl e)
                             | Inr obj \<Rightarrow>
                                 object_loop regex data index
                                   (objects @ [dict_add obj ''index'' (PInt index)])
                                   (posn + 31))))"

definition object_block ::
  "byte list \<Rightarrow> int \<Rightarrow> int \<Rightarrow> int \<Rightarrow> (error + (pyval list \<times> int)) option" where
  "object_block data posn player_number index =
     (case REGEXES player_number of
        Inl e \<Rightarrow> Some (Inl e)
      | Inr regex \<Rightarrow> object_loop regex data index [] posn)"

subsection \<open>A player\<close>

text \<open>
  \<^verbatim>\<open>parse_player\<close> (lines 134-206) in three parts: the fields up to the start of the
  objects (lines 137-156), the three blocks of objects (lines 158-167), and the device
  and the end of the player (lines 169-191).
\<close>

definition player_header :: "pyval list \<Rightarrow> error + (int \<times> int list \<times> int)" where
  "player_header vs =
     bind (ints vs) (\<lambda>is.
       if length is < 2 then Inl ValueError
       else Inr (hd is, butlast (tl is), last is))"

definition name_resources :: "pyval list \<Rightarrow> error + (byte list \<times> int)" where
  "name_resources vs =
     bind (tuple2 vs) (\<lambda>(a, b).
     bind (the_bytes a) (\<lambda>name.
     bind (the_int b) (\<lambda>resources.
     Inr (name, resources))))"

definition player_place :: "pyval list \<Rightarrow> error + (pyfloat \<times> pyfloat \<times> int \<times> int)" where
  "player_place vs =
     bind (tuple4 vs) (\<lambda>(a, b, c, d).
     bind (the_float a) (\<lambda>start_x.
     bind (the_float b) (\<lambda>start_y.
     bind (the_int c) (\<lambda>civilization_id.
     bind (the_int d) (\<lambda>color_id.
     Inr (start_x, start_y, civilization_id, color_id))))))"

record player_fields =
  pf_type :: int
  pf_diplomacy :: "int list"
  pf_name :: "byte list"
  pf_start_x :: pyfloat
  pf_start_y :: pyfloat
  pf_civilization_id :: int
  pf_color_id :: int
  pf_offset :: int
  pf_data :: "byte list"
  pf_start :: int

definition player_head ::
  "stream \<Rightarrow> int \<Rightarrow> pyfloat \<Rightarrow> error + (player_fields \<times> stream)" where
  "player_head header num_players save =
     (let rep = (if fge save 61.5 then num_players else 9) in
      bind (unpack [(1, Cb), (1, Cx), (num_players, Cx), (rep, Ci), (5, Cx), (1, Ch)] header)
        (\<lambda>(vs, header).
      bind (player_header vs) (\<lambda>(type, diplomacy, name_length).
      bind (unpack [(name_length - 1, Cs), (2, Cx), (1, CI), (1, Cx)] header) (\<lambda>(vs, header).
      bind (name_resources vs) (\<lambda>(name, resources).
      let resources_len = (if fge save 63 then 8 else 4);
          header = skip header (resources * resources_len)
      in
      bind (unpack [(1, Cx), (1, Cf), (1, Cf), (9, Cx), (1, Cb), (3, Cx), (1, Cb), (1, Cx)] header)
        (\<lambda>(vs, header).
      bind (player_place vs) (\<lambda>(start_x, start_y, civilization_id, color_id).
      bind (Inr (read header (- 1))) (\<lambda>(data, header').
      case search (matches object_start) data of
        None \<Rightarrow> Inl (RuntimeError ''could not find object start'')
      | Some found \<Rightarrow>
          Inr (\<lparr>pf_type = type, pf_diplomacy = diplomacy, pf_name = name,
                 pf_start_x = start_x, pf_start_y = start_y,
                 pf_civilization_id = civilization_id, pf_color_id = color_id,
                 pf_offset = tell header, pf_data = data, pf_start = int found + 9\<rparr>,
               header')))))))))"

definition player_objects ::
  "byte list \<Rightarrow> int \<Rightarrow> int \<Rightarrow> (error + (pyval list \<times> int)) option" where
  "player_objects data start player_number =
     obind (object_block data start player_number 0) (\<lambda>(objects, endv).
     obind (object_block data endv player_number 1) (\<lambda>(sleeping, endv).
     obind (object_block data endv player_number 2) (\<lambda>(doppel, endv).
     let endv = (if slice data (endv + 8) (endv + 10) = BLOCK_END then endv + 10 else endv);
         endv = (if slice data endv (endv + 2) = BLOCK_END then endv + 2 else endv)
     in Some (Inr (objects @ sleeping @ doppel, endv)))))"

text \<open>The device is byte 8 of the next 100 bytes: an IndexError when fewer than nine
  are left. The end of the player is looked for in these 100 bytes and then in the
  bytes after them; the cursor moves behind it when it is found.\<close>

definition player_end :: "stream \<Rightarrow> int \<Rightarrow> int \<Rightarrow> pyfloat \<Rightarrow> error + (int \<times> stream)" where
  "player_end header player_number num_players save =
     (if fge save 37 then
        bind (Inr (read header 100)) (\<lambda>(data, header').
        if length data \<le> 8 then Inl IndexError
        else
          let device = int (unat (data ! 8)) in
          case search (matches PLAYER_END) data of
            Some found \<Rightarrow>
              bind (seek header' (tell header + int found + 26)) (\<lambda>header. Inr (device, header))
          | None \<Rightarrow>
              bind (Inr (read header' (- 1))) (\<lambda>(data, header'').
              case search (matches PLAYER_END) data of
                Some found \<Rightarrow>
                  bind (seek header'' (tell header' + int found + 26)) (\<lambda>header.
                  Inr (device, header))
              | None \<Rightarrow>
                  if player_number < num_players - 1
                  then Inl (RuntimeError ''could not find player end'')
                  else Inr (device, header'')))
      else Inr (0, header))"

definition parse_player ::
  "stream \<Rightarrow> int \<Rightarrow> int \<Rightarrow> pyfloat \<Rightarrow> (error + ((pyval \<times> int) \<times> stream)) option" where
  "parse_player header player_number num_players save =
     obind (Some (player_head header num_players save)) (\<lambda>(f, header).
     obind (player_objects (pf_data f) (pf_start f) player_number) (\<lambda>(objects, endv).
     obind (Some (seek header (pf_offset f + endv))) (\<lambda>header.
     obind (Some (player_end header player_number num_players save)) (\<lambda>(device, header).
     Some (Inr ((PDict
                  [(''number'', PInt player_number),
                   (''type'', PInt (pf_type f)),
                   (''name'', PBytes (pf_name f)),
                   (''diplomacy'', PList (map PInt (pf_diplomacy f))),
                   (''civilization_id'', PInt (pf_civilization_id f)),
                   (''color_id'', PInt (pf_color_id f)),
                   (''objects'', PList objects),
                   (''position'',
                      PDict [(''x'', PFloat (pf_start_x f)), (''y'', PFloat (pf_start_y f))])],
                 device),
                header))))))"

subsection \<open>All players\<close>

text \<open>
  \<^verbatim>\<open>parse_players\<close> (lines 854-886). The first part (lines 857-865) looks for the Gaia
  anchor in the rest of the header and moves the cursor back from it; a target before
  the start of the buffer is a ValueError. The result of \<^verbatim>\<open>find\<close> is not tested.
\<close>

definition parse_players_seek :: "stream \<Rightarrow> int \<Rightarrow> version \<Rightarrow> pyfloat \<Rightarrow> error + stream" where
  "parse_players_seek header num_players version save =
     (let cur = tell header;
          gaia = (if version = DE \<or> version = HD then [71, 97, 105, 97] else [71, 65, 73, 65]);
          (rest, header) = read header (- 1);
          anchor = find rest ([5, 0] @ gaia @ [0]) 0;
          rev = (if fge save 61.5 then 7 + num_players * 4 else 43);
          target = cur + anchor - num_players - rev
      in seek header target)"

fun players_loop ::
  "nat \<Rightarrow> nat \<Rightarrow> int \<Rightarrow> pyfloat \<Rightarrow> (pyval \<times> int) list \<times> stream
     \<Rightarrow> (error + ((pyval \<times> int) list \<times> stream)) option" where
  "players_loop 0 i num_players save s = Some (Inr s)"
| "players_loop (Suc n) i num_players save s =
     obind (parse_player (snd s) (int i) num_players save) (\<lambda>(p, header).
     players_loop n (Suc i) num_players save (fst s @ [p], header))"

definition points_block :: "stream \<Rightarrow> error + stream" where
  "points_block header =
     bind (unpack [(1, Cf)] header) (\<lambda>(pver, header).
     bind (unpack_int [(1, Ci)] header) (\<lambda>(entries, header).
     let header = skip header (5 + entries * 44) in
     bind (unpack_int [(1, Ci)] header) (\<lambda>(points, header).
     Inr (skip header (8 + points * 32)))))"

definition parse_players ::
  "stream \<Rightarrow> int \<Rightarrow> version \<Rightarrow> pyfloat
     \<Rightarrow> (error + ((pyval list \<times> pyval \<times> int) \<times> stream)) option" where
  "parse_players header num_players version save =
     obind (Some (parse_players_seek header num_players version save)) (\<lambda>header.
     obind (Some (parse_mod header num_players version)) (\<lambda>(mod_version, header).
     obind (players_loop (nat num_players) 0 num_players save ([], header)) (\<lambda>(players, header).
     let cur = tell header;
         pv = (if fge save 61.5 then [102, 102, 6, 64] else [0, 0, 0, 64]);
         (rest, header) = read header (- 1);
         points_version = find rest pv 0
     in
     obind (Some (seek header cur)) (\<lambda>header.
     let header = skip header points_version in
     obind (Some (repeat (nat num_players) points_block header)) (\<lambda>header.
     case players of
       [] \<Rightarrow> Some (Inl IndexError)
     | p # ps \<Rightarrow> Some (Inr ((map fst players, mod_version, snd p), header)))))))"

section \<open>The scenario\<close>

text \<open>
  \<^verbatim>\<open>struct.pack('<d', x)\<close>: the eight bytes of the double \<open>x\<close>, the low byte first: the
  sign, eleven bits of biased exponent, and the 52 bits of the mantissa below its
  leading one.
\<close>

definition le_bytes :: "nat \<Rightarrow> nat \<Rightarrow> byte list" where
  "le_bytes n v = map (\<lambda>i. of_nat (v div 256 ^ i)) [0..<n]"

definition pack_d :: "rat \<Rightarrow> byte list" where
  "pack_d q =
     (let a = \<bar>q\<bar>;
          e = max (exponent a) (- 1022);
          m = nat \<lfloor>if 52 \<le> e then a / 2 ^ nat (e - 52) else a * 2 ^ nat (52 - e)\<rfloor>;
          biased = (if m < 2 ^ 52 then 0 else nat (e + 1023))
      in le_bytes 8 ((if q < 0 then 2 ^ 63 else 0) + biased * 2 ^ 52 + m mod 2 ^ 52))"

text \<open>The version of the settings that a DE save version stands for (lines 396-417), as
  the decimal literal of the source.\<close>

definition settings_version :: "pyfloat \<Rightarrow> rat" where
  "settings_version save =
     (if fge save 66.3 then 4.5
      else if fge save 64.3 then 4.1
      else if fge save 63 then 3.9
      else if fge save 61.5 then 3.6
      else if fge save 37 then 3.5
      else if fge save 26.21 then 3.2
      else if fge save 26.16 then 3.0
      else if fge save 25.22 then 2.6
      else if fge save 25.06 then 2.5
      else if fge save 13.34 then 2.4
      else 2.2)"

text \<open>The loops of \<^verbatim>\<open>parse_scenario\<close> (lines 319-466): the data of a player from save
  66.6 on and before, a string that is read and dropped, an effect and a trigger.\<close>

definition scenario_player_new :: "stream \<Rightarrow> error + stream" where
  "scenario_player_new data =
     (let data = skip data 8 in
      bind (de_string data) (\<lambda>(unused, data).
      bind (de_string data) (\<lambda>(unused, data).
      Inr (skip data 4))))"

definition scenario_player_old :: "pyfloat \<Rightarrow> stream \<Rightarrow> error + stream" where
  "scenario_player_old save data =
     (let data = skip data 12;
          data = skip_if (fge save 13.34) data 4
      in Inr (skip data 4))"

definition drop_aoc_string :: "stream \<Rightarrow> error + stream" where
  "drop_aoc_string data = bind (aoc_string data) (\<lambda>(unused, data). Inr data)"

definition scenario_effect :: "stream \<Rightarrow> error + stream" where
  "scenario_effect data =
     (let data = skip data 216 in
      bind (int_prefixed_string data) (\<lambda>(text, data).
      bind (int_prefixed_string data) (\<lambda>(sound, data).
      Inr data)))"

definition scenario_trigger :: "stream \<Rightarrow> error + stream" where
  "scenario_trigger data =
     (let data = skip data 22;
          data = skip data 4
      in
      bind (int_prefixed_string data) (\<lambda>(description, data).
      bind (int_prefixed_string data) (\<lambda>(name, data).
      bind (int_prefixed_string data) (\<lambda>(short_description, data).
      bind (unpack_int [(1, CI)] data) (\<lambda>(n_effects, data).
      bind (repeat (nat n_effects) scenario_effect data) (\<lambda>data.
      let data = skip data (n_effects * 4) in
      bind (unpack_int [(1, CI)] data) (\<lambda>(n_condition, data).
      Inr (skip data (n_condition * 125)))))))))"

definition scenario_triggers :: "version \<Rightarrow> stream \<Rightarrow> error + stream" where
  "scenario_triggers version data =
     (if version = DE then
        let data = skip data 1 in
        bind (unpack_int [(1, CI)] data) (\<lambda>(n_triggers, data).
        bind (repeat (nat n_triggers) scenario_trigger data) (\<lambda>data.
        bind (unpack [(n_triggers, CI)] data) (\<lambda>(trigger_list_order, data).
        Inr (skip data 1032))))
      else Inr data)"

text \<open>
  The first part of \<^verbatim>\<open>parse_scenario\<close> (lines 322-393) reads the two strings and the
  two identifiers of the result; the second (lines 394-423) looks for the anchor of the
  settings in the rest of the header and moves the cursor relative to its end. The
  result of \<^verbatim>\<open>find\<close> is not tested: for an absent anchor \<open>end\<close> is \<open>- 1 + 8\<close>, or
  \<open>- 1 + 13\<close>.
\<close>

definition scenario_head ::
  "stream \<Rightarrow> version \<Rightarrow> pyfloat \<Rightarrow> error + ((byte list \<times> byte list \<times> int \<times> int) \<times> stream)" where
  "scenario_head data version save =
     bind (unpack [(1, Cf)] data) (\<lambda>(scenario_version, data).
     let data = skip data 4;
         data = skip_if (fge save 61.5) data 4;
         data = skip_if (fge save 61.5 \<and> flt save 66.6) data 4;
         data = skip data (16 * 256);
         data = skip data (16 * 4)
     in
     bind (if fge save 66.6 then repeat 16 scenario_player_new data else Inr data) (\<lambda>data.
     let data = skip_if (fge save 61.5 \<and> flt save 66.6) data 64 in
     bind (if flt save 66.6 then repeat 16 (scenario_player_old save) data else Inr data) (\<lambda>data.
     let data = skip data 1 in
     bind (unpack [(1, Cf)] data) (\<lambda>(elapsed_time, data).
     let data = skip_if (version = DE) data 64;
         data = skip_if (fge save 66.6) data 68
     in
     bind (aoc_string data) (\<lambda>(scenario_filename, data).
     let data = skip data 24 in
     bind (aoc_string data) (\<lambda>(instructions, data).
     bind (repeat 9 drop_aoc_string data) (\<lambda>data.
     let data = skip data 78 in
     bind (repeat 16 drop_aoc_string data) (\<lambda>data.
     let data = skip data 196 in
     bind (repeat 16 (\<lambda>data. Inr (skip_if (version = DE \<or> version = HD) (skip data 24) 4)) data)
       (\<lambda>data.
     let data = skip data 12672 in
     bind (if version = DE then Inr (skip data 196)
           else repeat 16 (\<lambda>data. Inr (skip data 332)) data) (\<lambda>data.
     let data = skip_if (version = HD) data 644;
         data = skip data 88;
         data = skip_if (version = HD) data 16
     in
     bind (unpack [(1, CI), (1, CI)] data) (\<lambda>(vs, data).
     bind (ints2 vs) (\<lambda>(map_id, difficulty_id).
     Inr ((scenario_filename, instructions, map_id, difficulty_id), data)))))))))))))"

definition settings_anchor :: "version \<Rightarrow> pyfloat \<Rightarrow> byte list" where
  "settings_anchor version save =
     (if version = DE then pack_d (dbl (settings_version save))
      else [154, 153, 153, 153, 153, 153, 249, 63])"

definition scenario_seek :: "stream \<Rightarrow> version \<Rightarrow> pyfloat \<Rightarrow> stream" where
  "scenario_seek data version save =
     (let (remainder, data) = read data (- 1);
          endv = find remainder (settings_anchor version save) 0 + (if version = DE then 8 else 13)
      in seek_cur data (endv - int (length remainder)))"

definition parse_scenario ::
  "stream \<Rightarrow> int \<Rightarrow> version \<Rightarrow> pyfloat \<Rightarrow> error + (pyval \<times> stream)" where
  "parse_scenario data num_players version save =
     bind (scenario_head data version save)
       (\<lambda>((scenario_filename, instructions, map_id, difficulty_id), data).
     let data = scenario_seek data version save in
     bind (scenario_triggers version data) (\<lambda>data.
     Inr (PDict
           [(''map_id'', PInt map_id),
            (''difficulty_id'', PInt difficulty_id),
            (''instructions'', PBytes instructions),
            (''scenario_filename'', PBytes scenario_filename)],
          data)))"

section \<open>The whole header\<close>

text \<open>
  \<^verbatim>\<open>decompress\<close> (lines 823-832). \<^verbatim>\<open>zlib.decompress\<close> is the library's: it is a
  parameter \<open>inflate\<close> of the model, None where zlib raises its error. The result is
  the stream of the decompressed header and the file behind the compressed bytes.
\<close>

definition decompress ::
  "(byte list \<Rightarrow> byte list option) \<Rightarrow> stream \<Rightarrow> error + (stream \<times> stream)" where
  "decompress inflate data =
     bind (unpack [(1, CI), (1, CI)] data) (\<lambda>(vs, data).
     bind (ints2 vs) (\<lambda>(header_len, chapter_address).
     let (zlib_header, data) = read data (header_len - 8) in
     case inflate zlib_header of
       None \<Rightarrow> Inl ZlibError
     | Some decompressed \<Rightarrow> Inr (\<lparr>buf = decompressed, pos = 0\<rparr>, data)))"

text \<open>
  \<^verbatim>\<open>parse\<close> (lines 930-982). The handler turns \<^verbatim>\<open>struct.error\<close>, \<^verbatim>\<open>zlib.error\<close> and
  ValueError into the RuntimeError \<^verbatim>\<open>could not parse\<close>; every other error leaves
  \<^verbatim>\<open>parse\<close> as it was raised. The message of the error for a version that is not
  supported starts with the name of the version. \<^verbatim>\<open>de.get('dlc_ids') if de else mod\<close>
  tests the truth of \<open>de\<close>: None and the empty dict are false.
\<close>

fun handler :: "error \<Rightarrow> error" where
  "handler StructError = CouldNotParse StructError"
| "handler ZlibError = CouldNotParse ZlibError"
| "handler ValueError = CouldNotParse ValueError"
| "handler e = e"

fun truthy :: "pyval \<Rightarrow> bool" where
  "truthy PNone = False"
| "truthy (PDict kvs) = (kvs \<noteq> [])"
| "truthy v = True"

definition dict_get_default :: "pyval \<Rightarrow> string \<Rightarrow> pyval" where
  "dict_get_default d k = (case dict_get d k of Some v \<Rightarrow> v | None \<Rightarrow> PNone)"

definition parse_stages ::
  "version \<Rightarrow> pystr \<Rightarrow> pyfloat \<Rightarrow> int \<Rightarrow> stream \<Rightarrow> (error + pyval) option" where
  "parse_stages version game save lg header =
     obind (Some (parse_de header version save False)) (\<lambda>(de, header).
     obind (Some (parse_hd header version save)) (\<lambda>(hd, header).
     obind (Some (parse_metadata header save True)) (\<lambda>((metadata, num_players), header).
     obind (Some (parse_map header version save)) (\<lambda>(the_map, header).
     obind (parse_players header num_players version save) (\<lambda>((players, mod_version, device), header).
     obind (Some (parse_scenario header num_players version save)) (\<lambda>(scenario, header).
     obind (Some (parse_lobby header version save)) (\<lambda>(lobby, header).
     Some (Inr (PDict
       [(''version'', PVersion version),
        (''game_version'', PStr game),
        (''save_version'', PFloat save),
        (''log_version'', PInt lg),
        (''players'', PList players),
        (''map'', the_map),
        (''de'', de),
        (''hd'', hd),
        (''mod'', if truthy de then dict_get_default de ''dlc_ids'' else mod_version),
        (''metadata'', metadata),
        (''scenario'', scenario),
        (''lobby'', lobby),
        (''device'', PInt device)])))))))))"

definition parse ::
  "(byte list \<Rightarrow> byte list option) \<Rightarrow> (pystr \<Rightarrow> pyfloat \<Rightarrow> int \<Rightarrow> error + version) \<Rightarrow> stream
     \<Rightarrow> (error + pyval) option" where
  "parse inflate get_version data =
     map_option (map_sum handler id)
       (obind (Some (decompress inflate data)) (\<lambda>(header, data).
        obind (Some (parse_version get_version header data))
          (\<lambda>((version, game, save, lg), header, data).
        if version \<noteq> USERPATCH15 \<and> version \<noteq> DE \<and> version \<noteq> HD
        then Some (Inl (RuntimeError ''not supported''))
        else parse_stages version game save lg header)))"

section \<open>A recorded game to run the parser on\<close>

text \<open>
  The header of a small DE game of save version 25.22, piece by piece: the version
  (\<^verbatim>\<open>VER 9.4\<close> and the save version as a single), then the DE block: the settings,
  eight player slots of which two are taken, the lobby flags and the first string
  block, twenty more string blocks and the list of unknown records, and the GUID and
  the names.
\<close>

definition fx_version :: "byte list" where
  "fx_version =
      [86, 69, 82, 32, 57, 46, 52, 0, 143, 194, 201, 65]"

definition fx_settings :: "byte list" where
  "fx_settings =
      [127, 163] @ replicate 14 0 @ [2, 0, 0, 0, 2, 0, 0, 0, 3] @ replicate 7 0 @ [3] @
      replicate 7 0 @ [9] @ replicate 7 0 @ [1] @ replicate 7 0 @ [2] @ replicate 22 0 @
      [64, 0, 0, 0, 0, 200, 0, 0, 0, 2] @ replicate 17 0 @ [1, 0, 0, 1, 1, 1, 0, 1, 1, 1,
      0, 0, 1] @ replicate 13 0"

definition fx_slot0 :: "byte list" where
  "fx_slot0 =
      [0, 0, 0, 0, 1, 0, 0, 0, 0, 0, 1] @ replicate 9 0 @ [7, 0, 0, 0, 96, 10, 0, 0, 0, 96,
      10, 0, 0, 96, 10, 2, 0, 97, 98, 2, 0, 0, 0, 233, 3] @ replicate 20 0"

definition fx_slot1 :: "byte list" where
  "fx_slot1 =
      [0, 0, 0, 0, 2, 0, 0, 0, 0, 0, 2] @ replicate 9 0 @ [9, 0, 0, 0, 96, 10, 0, 0, 0, 96,
      10, 2, 0, 65, 73, 96, 10, 1, 0, 99, 4] @ replicate 11 0 @ [1, 0, 0, 0, 1] @ replicate
      9 0"

definition fx_slot2 :: "byte list" where
  "fx_slot2 =
      [0, 0, 0, 0, 255, 255, 255, 255] @ replicate 16 0 @ [96, 10, 0, 0, 0, 96, 10, 0, 0,
      96, 10] @ replicate 14 0 @ [255, 255, 255, 255] @ replicate 10 0"

definition fx_slot3 :: "byte list" where
  "fx_slot3 =
      [0, 0, 0, 0, 255, 255, 255, 255] @ replicate 16 0 @ [96, 10, 0, 0, 0, 96, 10, 0, 0,
      96, 10] @ replicate 14 0 @ [255, 255, 255, 255] @ replicate 10 0"

definition fx_slot4 :: "byte list" where
  "fx_slot4 =
      [0, 0, 0, 0, 255, 255, 255, 255] @ replicate 16 0 @ [96, 10, 0, 0, 0, 96, 10, 0, 0,
      96, 10] @ replicate 14 0 @ [255, 255, 255, 255] @ replicate 10 0"

definition fx_slot5 :: "byte list" where
  "fx_slot5 =
      [0, 0, 0, 0, 255, 255, 255, 255] @ replicate 16 0 @ [96, 10, 0, 0, 0, 96, 10, 0, 0,
      96, 10] @ replicate 14 0 @ [255, 255, 255, 255] @ replicate 10 0"

definition fx_slot6 :: "byte list" where
  "fx_slot6 =
      [0, 0, 0, 0, 255, 255, 255, 255] @ replicate 16 0 @ [96, 10, 0, 0, 0, 96, 10, 0, 0,
      96, 10] @ replicate 14 0 @ [255, 255, 255, 255] @ replicate 10 0"

definition fx_slot7 :: "byte list" where
  "fx_slot7 =
      [0, 0, 0, 0, 255, 255, 255, 255] @ replicate 16 0 @ [96, 10, 0, 0, 0, 96, 10, 0, 0,
      96, 10] @ replicate 14 0 @ [255, 255, 255, 255] @ replicate 10 0"

definition fx_flags :: "byte list" where
  "fx_flags =
      replicate 16 0 @ [1, 1, 2, 0, 0, 0, 0, 0, 30] @ replicate 8 0 @ [96, 10, 37, 0, 83,
      85, 66, 83, 67, 82, 73, 66, 69, 68, 77, 79, 68, 83, 58, 82, 65, 78, 68, 79, 77, 95,
      77, 65, 80, 83, 58, 120, 46, 114, 109, 115, 58, 49, 50, 95, 121, 1] @ replicate 11 0"

definition fx_strings :: "byte list" where
  "fx_strings =
      [1, 0, 0, 0, 1, 0, 0, 0, 1, 0, 0, 0, 1, 0, 0, 0, 1, 0, 0, 0, 1, 0, 0, 0, 1, 0, 0, 0,
      1, 0, 0, 0, 1, 0, 0, 0, 1, 0, 0, 0, 1, 0, 0, 0, 1, 0, 0, 0, 1, 0, 0, 0, 1, 0, 0, 0,
      1, 0, 0, 0, 1, 0, 0, 0, 1, 0, 0, 0, 1, 0, 0, 0, 1, 0, 0, 0, 1] @ replicate 23 0"

definition fx_names :: "byte list" where
  "fx_names =
      [0, 1, 2, 3, 4, 5, 6, 7, 8, 9, 10, 11, 12, 13, 14, 15, 96, 10, 1, 0, 76] @ replicate
      8 0 @ [96, 10] @ replicate 69 0 @ [96, 10] @ replicate 10 0"

definition fx :: "byte list" where
  "fx =
      fx_version @ fx_settings @ fx_slot0 @ fx_slot1 @ fx_slot2 @ fx_slot3 @ fx_slot4 @
      fx_slot5 @ fx_slot6 @ fx_slot7 @ fx_flags @ fx_strings @ fx_names"


text \<open>The save version that \<^verbatim>\<open>parse_version\<close> returns on it: the single nearest to
  25.22 is 13222543 / 524288, and \<^verbatim>\<open>round(save, 2)\<close> is the double nearest to 25.22.\<close>

definition fx_save :: pyfloat where
  "fx_save = Finite (887349864080343 / 35184372088832)"

text \<open>The DE block that the parser returns on it.\<close>

definition fx_slot :: "int \<Rightarrow> int \<Rightarrow> int \<Rightarrow> byte list \<Rightarrow> byte list \<Rightarrow> int \<Rightarrow> int \<Rightarrow> int
    \<Rightarrow> bool \<Rightarrow> pyval" where
  "fx_slot number color_id team_id ai_name name type profile_id civilization_id prefer_random =
     PDict
       [(''number'', PInt number),
        (''color_id'', PInt color_id),
        (''team_id'', PInt team_id),
        (''ai_name'', PBytes ai_name),
        (''name'', PBytes name),
        (''censored_name'', PBytes name),
        (''type'', PInt type),
        (''profile_id'', PInt profile_id),
        (''civilization_id'', PInt civilization_id),
        (''custom_civ_selection'', PNone),
        (''prefer_random'', PBool prefer_random)]"

definition fx_free_slot :: pyval where
  "fx_free_slot = fx_slot (- 1) (- 1) 0 [] [] 0 0 0 False"

definition fx_de :: pyval where
  "fx_de =
     PDict
       [(''players'',
           PList [fx_slot 0 1 1 [] [97, 98] 2 1001 7 False, fx_slot 1 2 2 [65, 73] [99] 4 0 9 True,
                  fx_free_slot, fx_free_slot, fx_free_slot, fx_free_slot, fx_free_slot,
                  fx_free_slot]),
        (''guid'', PStr (str ''00010203-0405-0607-0809-0a0b0c0d0e0f'')),
        (''hash'', PSha1 [0, 1, 2, 3, 4, 5, 6, 7, 8, 9, 10, 11, 12, 13, 14, 15]),
        (''lobby'', PStr (str ''L'')),
        (''mod'', PStr []),
        (''difficulty_id'', PInt 3),
        (''victory_type_id'', PInt 1),
        (''starting_resources_id'', PInt 0),
        (''starting_age_id'', PInt 0),
        (''ending_age_id'', PInt 0),
        (''speed'', PFloat (Finite 2)),
        (''population_limit'', PInt 200),
        (''treaty_length'', PInt 0),
        (''team_together'', PBool False),
        (''all_technologies'', PBool False),
        (''lock_teams'', PBool True),
        (''lock_speed'', PBool True),
        (''multiplayer'', PBool True),
        (''cheats'', PBool False),
        (''record_game'', PBool True),
        (''animals_enabled'', PBool True),
        (''predators_enabled'', PBool True),
        (''turbo_enabled'', PBool False),
        (''shared_exploration'', PBool False),
        (''team_positions'', PBool True),
        (''build'', PInt 41855),
        (''timestamp'', PNone),
        (''spec_delay'', PInt 30),
        (''rated'', PBool True),
        (''allow_specs'', PBool True),
        (''hidden_civs'', PBool False),
        (''visibility_id'', PInt 2),
        (''rms_mod_id'', PStr (str ''12'')),
        (''rms_map_id'', PInt 9),
        (''rms_filename'', PStr (str ''x.rms'')),
        (''dlc_ids'', PList [PInt 2, PInt 3])]"

text \<open>Opening a piece: the bytes of a piece are only looked at when a read reaches it.\<close>

definition opened :: "byte list \<Rightarrow> byte list" where
  "opened xs = xs"

section \<open>Evaluating the stream on a concrete buffer\<close>

text \<open>The rules are stated for a stream that is written out, so that they only apply
  once the stream of a step is known.\<close>

lemma read_eval:
  "read \<lparr>buf = b, pos = p\<rparr> n =
     (if n < 0 then (drop p b, \<lparr>buf = b, pos = max p (length b)\<rparr>)
      else (take (nat n) (drop p b), \<lparr>buf = b, pos = p + min (nat n) (length b - p)\<rparr>))"
  by (auto simp: read_def Let_def max_def min_def)

lemma skip_eval:
  "skip \<lparr>buf = b, pos = p\<rparr> n =
     (if n < 0 then \<lparr>buf = b, pos = max p (length b)\<rparr>
      else \<lparr>buf = b, pos = p + min (nat n) (length b - p)\<rparr>)"
  by (simp add: skip_def read_eval)

lemma skip_if_eval:
  "skip_if True h n = skip h n"
  "skip_if False h n = h"
  by (simp_all add: skip_if_def)

lemma unpack_eval:
  "unpack fmt \<lparr>buf = b, pos = p\<rparr> =
     bind (calcsize fmt) (\<lambda>n.
       if n \<le> length b - p
       then Inr (decode fmt (take n (drop p b)), \<lparr>buf = b, pos = p + n\<rparr>)
       else Inl StructError)"
  by (cases "calcsize fmt") (auto simp: unpack_def read_def Let_def min_def)

lemma seek_eval:
  "seek \<lparr>buf = b, pos = p\<rparr> t = (if t < 0 then Inl ValueError else Inr \<lparr>buf = b, pos = nat t\<rparr>)"
  by (simp add: seek_def)

lemma seek_cur_eval:
  "seek_cur \<lparr>buf = b, pos = p\<rparr> d = \<lparr>buf = b, pos = nat (max 0 (int p + d))\<rparr>"
  by (simp add: seek_cur_def)

lemma tell_eval: "tell \<lparr>buf = b, pos = p\<rparr> = int p"
  by (simp add: tell_def)

lemma length_decode_rep: "length (decode_rep c n bs) = n"
  by (simp add: decode_rep_def)

lemma nth_decode_rep:
  "i < n \<Longrightarrow> decode_rep c n bs ! i = decode1 c (take (size_of c) (drop (i * size_of c) bs))"
  by (simp add: decode_rep_def)

lemma decode_rep_1: "decode_rep c (Suc 0) bs = [decode1 c (take (size_of c) bs)]"
  by (simp add: decode_rep_def)

lemma digits_eval:
  "digits (numeral k) =
     (if numeral k < (10::nat) then [48 + numeral k]
      else digits (numeral k div 10) @ [48 + numeral k mod 10])"
  "digits 0 = [48]"
  "digits (Suc 0) = [49]"
  by (subst digits.simps, simp)+



text \<open>The literals that the save version is compared with, as doubles.\<close>

lemma ilog2_eval:
  "ilog2 (numeral k) = (if numeral k < (2::nat) then 0 else Suc (ilog2 (numeral k div 2)))"
  "ilog2 0 = 0"
  "ilog2 (Suc 0) = 0"
  by (subst ilog2.simps, simp)+

lemma floor_rat_numeral:
  "\<lfloor>numeral a / numeral b :: rat\<rfloor> = numeral a div numeral b"
  "\<lfloor>- (numeral a / numeral b) :: rat\<rfloor> = - numeral a div numeral b"
  "\<lceil>numeral a / numeral b :: rat\<rceil> = - (- numeral a div numeral b)"
  "\<lceil>- (numeral a / numeral b) :: rat\<rceil> = - (numeral a div numeral b)"
proof -
  show "\<lfloor>numeral a / numeral b :: rat\<rfloor> = numeral a div numeral b"
    by (metis floor_divide_of_int_eq of_int_numeral)
  show "\<lfloor>- (numeral a / numeral b) :: rat\<rfloor> = - numeral a div numeral b"
    by (metis divide_minus_left floor_divide_of_int_eq of_int_neg_numeral of_int_numeral)
  show "\<lceil>numeral a / numeral b :: rat\<rceil> = - (- numeral a div numeral b)"
    by (metis ceiling_def divide_minus_left floor_divide_of_int_eq of_int_neg_numeral of_int_numeral)
  show "\<lceil>- (numeral a / numeral b) :: rat\<rceil> = - (numeral a div numeral b)"
    by (metis ceiling_def floor_divide_of_int_eq minus_minus of_int_numeral)
qed

lemmas dbl_eval = dbl_def exponent_def ilog2_eval round_half_even_def Let_def floor_rat_numeral

lemma float_lits:
  "fge (Finite q) 13.13 = (7391532888421827 / 562949953421312 \<le> q)"
  "fge (Finite q) 13.34 = (3754876189320151 / 281474976710656 \<le> q)"
  "fge (Finite q) 20.06 = (5646388032815759 / 281474976710656 \<le> q)"
  "fge (Finite q) 20.16 = (5674535530486825 / 281474976710656 \<le> q)"
  "fge (Finite q) 25.02 = (7042503917300613 / 281474976710656 \<le> q)"
  "fge (Finite q) 25.06 = (7053762916369039 / 281474976710656 \<le> q)"
  "fge (Finite q) 25.22 = (887349864080343 / 35184372088832 \<le> q)"
  "fge (Finite q) 26.16 = (7363385390750761 / 281474976710656 \<le> q)"
  "fge (Finite q) 26.21 = (3688729569793147 / 140737488355328 \<le> q)"
  "fge (Finite q) 37 = (37 \<le> q)"
  "fge (Finite q) 61.5 = (123 / 2 \<le> q)"
  "fge (Finite q) 62.0 = (62 \<le> q)"
  "fge (Finite q) 63 = (63 \<le> q)"
  "fge (Finite q) 63.0 = (63 \<le> q)"
  "fge (Finite q) 64.3 = (4524710250623795 / 70368744177664 \<le> q)"
  "fge (Finite q) 66.3 = (4665447738979123 / 70368744177664 \<le> q)"
  "fge (Finite q) 66.6 = (2343279181116211 / 35184372088832 \<le> q)"
  "fge (Finite q) 67.2 = (4728779608739021 / 70368744177664 \<le> q)"
  "flt (Finite q) 25.22 = (q < 887349864080343 / 35184372088832)"
  "flt (Finite q) 61.5 = (q < 123 / 2)"
  "flt (Finite q) 66.3 = (q < 4665447738979123 / 70368744177664)"
  "flt (Finite q) 66.6 = (q < 2343279181116211 / 35184372088832)"
  "fgt (Finite q) 50 = (50 < q)"
  "fle (Finite q) 12.34 = (q \<le> 3473401212609495 / 281474976710656)"
  by (simp_all add: dbl_eval)

lemma float_cong:
  "x = y \<Longrightarrow> fge x t = fge y t"
  "x = y \<Longrightarrow> flt x t = flt y t"
  "x = y \<Longrightarrow> fgt x t = fgt y t"
  "x = y \<Longrightarrow> fle x t = fle y t"
  by simp_all

lemma le_nat_append: "le_nat (xs @ ys) = le_nat xs + 256 ^ length xs * le_nat ys"
  by (induction xs) (simp_all add: algebra_simps)

lemma le_nat_replicate0: "le_nat (replicate n 0) = 0"
  by (induction n) simp_all



lemma bind_weak_cong: "m = m' \<Longrightarrow> bind m f = bind m' f"
  by simp

lemmas eval_cong = bind_weak_cong let_weak_cong prod.case_cong_weak sum.case_cong_weak
  list.case_cong_weak option.case_cong_weak float_cong

lemma repeat_numeral:
  "repeat (numeral k) body s = bind (body s) (repeat (pred_numeral k) body)"
  by (simp add: numeral_eq_Suc)

lemma for_range_numeral:
  "for_range i (numeral k) body s = bind (body i s) (for_range (Suc i) (pred_numeral k) body)"
  by (simp add: numeral_eq_Suc)

text \<open>Evaluation goes from the outside in: the continuation of a \<open>bind\<close> is only
  looked at once its first argument is a value.\<close>

lemmas stream_eval = read_eval skip_eval skip_if_eval unpack_eval unpack_int_def unpack_bytes_def
  unpack_ints_def one_int_def one_bytes_def ints2_def ints3_def ints5_def bytes_float_def calcsize_def decode_rep_1 length_decode_rep nth_decode_rep le_int_def
  le_nat_append le_nat_replicate0 seek_eval seek_cur_eval tell_eval Let_def

section \<open>Skipping fields\<close>

lemma adv_refl: "adv h h 0"
  by (simp add: adv_def)

lemma adv_skip: "adv h h1 k \<Longrightarrow> 0 \<le> n \<Longrightarrow> adv h (skip h1 n) (k + nat n)"
  by (auto simp: adv_def skip_def read_def Let_def min_def)

lemma adv_skip_if:
  "adv h h1 k \<Longrightarrow> 0 \<le> n \<Longrightarrow> adv h (skip_if c h1 n) (k + (if c then nat n else 0))"
  using adv_skip [of h h1 k n] by (simp add: skip_if_def)

lemma adv_pos: "adv h h' k \<Longrightarrow> 0 < n \<Longrightarrow> n \<le> length (buf h') - pos h' \<Longrightarrow> pos h' = pos h + k"
  by (auto simp: adv_def)

section \<open>Properties of the string blocks\<close>

declare string_block_loop.simps [simp del]

lemma string_block_loop_acc_all:
  "\<forall>acc. string_block_loop data acc =
     bind (string_block_loop data []) (\<lambda>(r, d). Inr (acc @ r, d))"
proof (rule string_block_loop.induct
    [where P = "\<lambda>data strings. \<forall>acc. string_block_loop data acc =
       bind (string_block_loop data []) (\<lambda>(r, d). Inr (acc @ r, d))"
       and ?a0.0 = data and ?a1.0 = "[]"], rule allI)
  fix data :: stream and strings :: "pystr list list" and acc :: "pystr list list"
  assume step: "\<And>x crc data1 y s data2 u.
    unpack_int [(1, CI)] data = Inr x \<Longrightarrow> (crc, data1) = x \<Longrightarrow> \<not> (crc < 255 \<and> 0 < crc) \<Longrightarrow>
    de_string data1 = Inr y \<Longrightarrow> (s, data2) = y \<Longrightarrow> utf8_decode s = Inr u \<Longrightarrow>
    \<forall>acc. string_block_loop data2 acc =
       bind (string_block_loop data2 []) (\<lambda>(r, d). Inr (acc @ r, d))"
  show "string_block_loop data acc =
     bind (string_block_loop data []) (\<lambda>(r, d). Inr (acc @ r, d))"
  proof (cases "unpack_int [(1, CI)] data")
    case (Inl e)
    then show ?thesis
      by (subst string_block_loop.simps, subst (2) string_block_loop.simps) simp
  next
    case (Inr x)
    obtain crc data1 where x: "x = (crc, data1)" by (cases x)
    show ?thesis
    proof (cases "255 > crc \<and> crc > 0")
      case True
      with Inr x show ?thesis
        by (subst string_block_loop.simps, subst (2) string_block_loop.simps) simp
    next
      case False
      show ?thesis
      proof (cases "de_string data1")
        case (Inl e)
        with Inr x False show ?thesis
          by (subst string_block_loop.simps, subst (2) string_block_loop.simps) simp
      next
        case ds: (Inr y)
        obtain s data2 where y: "y = (s, data2)" by (cases y)
        show ?thesis
        proof (cases "utf8_decode s")
          case (Inl e)
          with Inr x ds y False show ?thesis
            by (subst string_block_loop.simps, subst (2) string_block_loop.simps) simp
        next
          case ud: (Inr u)
          let ?e = "split_on (of_char CHR '':'') u"
          from False have nf: "\<not> (crc < 255 \<and> 0 < crc)" by simp
          have ih: "string_block_loop data2 acc' =
              bind (string_block_loop data2 []) (\<lambda>(r, d). Inr (acc' @ r, d))" for acc'
            using step [OF Inr x [symmetric] nf ds y [symmetric] ud] by blast
          have l: "string_block_loop data acc = string_block_loop data2 (acc @ [?e])"
            using False Inr x ds y ud by (subst string_block_loop.simps) auto
          have r: "string_block_loop data [] = string_block_loop data2 [?e]"
            using False Inr x ds y ud by (subst string_block_loop.simps) auto
          show ?thesis
            unfolding l r
            by (subst ih, subst (2) ih, cases "string_block_loop data2 []") auto
        qed
      qed
    qed
  qed
qed

text \<open>
  C1 (as the code has it). One turn of the loop of \<^verbatim>\<open>string_block\<close>: the u32 \<open>crc\<close> is
  read and consumed (four bytes); the loop ends exactly when \<open>crc\<close> lies inside the
  open interval (0, 255), returning what was accumulated; when \<open>crc\<close> is 0 or at
  least 255 a DE string is read, decoded, split at the colons and accumulated, and the
  loop goes on after it.
\<close>

theorem string_block_step:
  assumes "unpack_int [(1, CI)] data = Inr (crc, data1)"
  shows "pos data1 = pos data + 4 \<and>
    string_block data =
      (if 0 < crc \<and> crc < 255 then Inr ([], data1)
       else
         bind (de_string data1) (\<lambda>(s, data2).
         bind (utf8_decode s) (\<lambda>u.
         bind (string_block data2) (\<lambda>(rest, data3).
         Inr (split_on (of_char CHR '':'') u # rest, data3)))))"
proof -
  have p: "pos data1 = pos data + 4"
    using unpack_int_facts [OF assms] by simp
  have "string_block data =
      (if 0 < crc \<and> crc < 255 then Inr ([], data1)
       else
         bind (de_string data1) (\<lambda>(s, data2).
         bind (utf8_decode s) (\<lambda>u.
         string_block_loop data2 [split_on (of_char CHR '':'') u])))"
    unfolding string_block_def using assms
    by (subst string_block_loop.simps) auto
  also have "\<dots> =
      (if 0 < crc \<and> crc < 255 then Inr ([], data1)
       else
         bind (de_string data1) (\<lambda>(s, data2).
         bind (utf8_decode s) (\<lambda>u.
         bind (string_block data2) (\<lambda>(rest, data3).
         Inr (split_on (of_char CHR '':'') u # rest, data3)))))"
    unfolding string_block_def
    by (subst string_block_loop_acc_all [rule_format]) simp
  finally show ?thesis
    using p by simp
qed

theorem string_block_step_witness:
  "unpack_int [(1, CI)] \<lparr>buf = [255, 0, 0, 0, 96, 10, 3, 0, 97, 58, 98, 7, 0, 0, 0], pos = 0\<rparr>
     = Inr (255, \<lparr>buf = [255, 0, 0, 0, 96, 10, 3, 0, 97, 58, 98, 7, 0, 0, 0], pos = 4\<rparr>)
   \<and> string_block \<lparr>buf = [255, 0, 0, 0, 96, 10, 3, 0, 97, 58, 98, 7, 0, 0, 0], pos = 0\<rparr>
     = Inr ([[[97], [98]]],
            \<lparr>buf = [255, 0, 0, 0, 96, 10, 3, 0, 97, 58, 98, 7, 0, 0, 0], pos = 15\<rparr>)"
proof -
  have h: "unpack_int [(1, CI)]
      \<lparr>buf = [255, 0, 0, 0, 96, 10, 3, 0, 97, 58, 98, 7, 0, 0, 0], pos = 0\<rparr>
     = Inr (255, \<lparr>buf = [255, 0, 0, 0, 96, 10, 3, 0, 97, 58, 98, 7, 0, 0, 0], pos = 4\<rparr>)"
    by (simp add: stream_eval)
  show ?thesis
    using h string_block_step [OF h]
    by (simp add: string_block_def string_block_loop.simps de_string_def stream_eval)
qed

text \<open>
  The claim as the spec words it fails: on the buffer below the first \<open>crc\<close> is 0, outside
  (0, 255), and the loop does not end but reads the entry \<open>a:b\<close>; the next \<open>crc\<close> is 7,
  inside (0, 255), and there the loop ends without reading another entry.
\<close>

theorem string_block_counterexample:
  "unpack_int [(1, CI)] \<lparr>buf = [0, 0, 0, 0, 96, 10, 3, 0, 97, 58, 98, 7, 0, 0, 0], pos = 0\<rparr>
     = Inr (0, \<lparr>buf = [0, 0, 0, 0, 96, 10, 3, 0, 97, 58, 98, 7, 0, 0, 0], pos = 4\<rparr>)
   \<and> unpack_int [(1, CI)] \<lparr>buf = [0, 0, 0, 0, 96, 10, 3, 0, 97, 58, 98, 7, 0, 0, 0], pos = 11\<rparr>
     = Inr (7, \<lparr>buf = [0, 0, 0, 0, 96, 10, 3, 0, 97, 58, 98, 7, 0, 0, 0], pos = 15\<rparr>)
   \<and> string_block \<lparr>buf = [0, 0, 0, 0, 96, 10, 3, 0, 97, 58, 98, 7, 0, 0, 0], pos = 0\<rparr>
     = Inr ([[[97], [98]]],
            \<lparr>buf = [0, 0, 0, 0, 96, 10, 3, 0, 97, 58, 98, 7, 0, 0, 0], pos = 15\<rparr>)"
  by (simp add: string_block_def string_block_loop.simps de_string_def stream_eval)
section \<open>Running the parser on the recorded game\<close>

lemma drop_opened: "n < length xs \<Longrightarrow> drop n xs = drop n (opened xs)"
  by (simp add: opened_def)

lemma take_opened: "0 < n \<Longrightarrow> take n xs = take n (opened xs)"
  by (simp add: opened_def)

lemma replicate_eq_Cons:
  "(replicate n x = y # ys) \<longleftrightarrow> (0 < n \<and> x = y \<and> replicate (n - 1) x = ys)"
  "(replicate n x = []) \<longleftrightarrow> n = 0"
  by (cases n; auto)+

lemma fx_lengths [simp]:
  "length fx_version = 12"
  "length fx_settings = 132"
  "length fx_slot0 = 65"
  "length fx_slot1 = 66"
  "length fx_slot2 = 63"
  "length fx_slot3 = 63"
  "length fx_slot4 = 63"
  "length fx_slot5 = 63"
  "length fx_slot6 = 63"
  "length fx_slot7 = 63"
  "length fx_flags = 86"
  "length fx_strings = 100"
  "length fx_names = 112"
  by (simp_all add: fx_version_def fx_settings_def fx_slot0_def fx_slot1_def fx_slot2_def fx_slot3_def fx_slot4_def fx_slot5_def fx_slot6_def fx_slot7_def fx_flags_def fx_strings_def fx_names_def)

lemma fx_length [simp]: "length fx = 951"
  by (simp add: fx_def)

lemmas fx_opened =
  trans [OF opened_def fx_version_def] trans [OF opened_def fx_settings_def] trans [OF
  opened_def fx_slot0_def] trans [OF opened_def fx_slot1_def] trans [OF opened_def
  fx_slot2_def] trans [OF opened_def fx_slot3_def] trans [OF opened_def fx_slot4_def] trans
  [OF opened_def fx_slot5_def] trans [OF opened_def fx_slot6_def] trans [OF opened_def
  fx_slot7_def] trans [OF opened_def fx_flags_def] trans [OF opened_def fx_strings_def]
  trans [OF opened_def fx_names_def] trans [OF opened_def fx_def]

lemmas fx_pieces =
  drop_opened [of _ fx_version] take_opened [of _ fx_version] drop_opened [of _
  fx_settings] take_opened [of _ fx_settings] drop_opened [of _ fx_slot0] take_opened [of _
  fx_slot0] drop_opened [of _ fx_slot1] take_opened [of _ fx_slot1] drop_opened [of _
  fx_slot2] take_opened [of _ fx_slot2] drop_opened [of _ fx_slot3] take_opened [of _
  fx_slot3] drop_opened [of _ fx_slot4] take_opened [of _ fx_slot4] drop_opened [of _
  fx_slot5] take_opened [of _ fx_slot5] drop_opened [of _ fx_slot6] take_opened [of _
  fx_slot6] drop_opened [of _ fx_slot7] take_opened [of _ fx_slot7] drop_opened [of _
  fx_flags] take_opened [of _ fx_flags] drop_opened [of _ fx_strings] take_opened [of _
  fx_strings] drop_opened [of _ fx_names] take_opened [of _ fx_names] drop_opened [of _ fx]
  take_opened [of _ fx]


lemmas de_eval = parse_de_def parse_de_settings_def de_player_def de_dlc_def de_civ_def
  de_strings_def de_empty_slot_def de_unknown_entry_def de_string_def string_block_def
  string_block_loop.simps repeat_numeral f32_def uuid_str_def hex_def hex_digit_def str_def
  replicate_eq_Cons

lemma fx_parse_de:
  "parse_de \<lparr>buf = fx, pos = 12\<rparr> DE fx_save False = Inr (fx_de, \<lparr>buf = fx, pos = 951\<rparr>)"
  by (simp add: fx_save_def float_lits de_eval stream_eval fx_opened fx_pieces fx_de_def
      fx_free_slot_def fx_slot_def
      del: fge.simps flt.simps fgt.simps fle.simps cong: eval_cong)

section \<open>Properties of the version detector\<close>









section \<open>Properties of the mod version\<close>

lemma int_of_float_Inr:
  "int_of_float f = Inr n \<longleftrightarrow> (\<exists>q. f = Finite q \<and> n = (if 0 \<le> q then \<lfloor>q\<rfloor> else \<lceil>q\<rceil>))"
  by (cases f) auto

lemma index_values_Inr:
  "index_values values i = Inr v \<longleftrightarrow> length values \<noteq> 1 \<and> i < length values \<and> v = values ! i"
  by (auto simp: index_values_def)

text \<open>
  C3 (as the code has it). For USERPATCH15, \<^verbatim>\<open>parse_mod\<close> reads the name length, the
  resource count and the resource floats, puts the cursor back where it was, and with
  \<open>number = int(values[198])\<close> (truncation towards zero) returns the pair of
  \<open>number // 1000\<close> and the decimal digits of \<open>number % 1000\<close> joined by dots.
\<close>

theorem parse_mod_userpatch15:
  assumes "parse_mod header num_players USERPATCH15 = Inr (m, header')"
  shows "\<exists>name_length h1 resources h2 values h3 q.
      unpack_int [(1, Cx), (1, Cx), (num_players, Cx), (36, Cx), (5, Cx), (1, Ch)] header
        = Inr (name_length, h1)
    \<and> unpack_int [(name_length + 1, Cx), (1, CI), (1, Cx)] h1 = Inr (resources, h2)
    \<and> unpack [(resources, Cf)] h2 = Inr (values, h3)
    \<and> 198 < length values \<and> values ! 198 = PFloat (Finite q)
    \<and> m = PTuple
          [PInt ((if 0 \<le> q then \<lfloor>q\<rfloor> else \<lceil>q\<rceil>) div 1000),
           PStr (join (str ''.'')
                  (map (\<lambda>c. [c]) (str_int ((if 0 \<le> q then \<lfloor>q\<rfloor> else \<lceil>q\<rceil>) mod 1000))))]
    \<and> header' = header"
proof -
  from assms obtain name_length h1 resources h2 vals h3 h4 v f number where
    a: "unpack_int [(1, Cx), (1, Cx), (num_players, Cx), (36, Cx), (5, Cx), (1, Ch)] header
        = Inr (name_length, h1)" and
    b: "unpack_int [(name_length + 1, Cx), (1, CI), (1, Cx)] h1 = Inr (resources, h2)" and
    c: "unpack [(resources, Cf)] h2 = Inr (vals, h3)" and
    d: "seek h3 (tell header) = Inr h4" and
    e: "index_values vals 198 = Inr v" and
    f: "the_float v = Inr f" and
    g: "int_of_float f = Inr number" and
    m: "m = PTuple [PInt (number div 1000),
                  PStr (join (str ''.'') (map (\<lambda>c. [c]) (str_int (number mod 1000))))]" and
    h: "header' = h4"
    by (simp only: parse_mod_def Let_def simp_thms if_True, elim bind_pairE bindE) simp
  from unpack_int_facts_gen [OF a] unpack_int_facts_gen [OF b] unpack_facts [OF c]
  have "buf h3 = buf header"
    by auto
  with d h have "header' = header"
    by (auto simp: seek_def tell_def split: if_splits)
  with a b c e f g m show ?thesis
    by (auto simp: index_values_Inr the_float_Inr int_of_float_Inr)
qed

theorem parse_mod_userpatch15_witness:
  "parse_mod
     \<lparr>buf = replicate 48 0 @ [199, 0, 0, 0] @ replicate 793 0 @ [0, 64, 123, 68], pos = 0\<rparr>
     2 USERPATCH15
   = Inr (PTuple [PInt 1, PStr (str ''5'')],
      \<lparr>buf = replicate 48 0 @ [199, 0, 0, 0] @ replicate 793 0 @ [0, 64, 123, 68], pos = 0\<rparr>)
   \<and> (\<exists>vals h3. unpack [(199, Cf)]
         \<lparr>buf = replicate 48 0 @ [199, 0, 0, 0] @ replicate 793 0 @ [0, 64, 123, 68],
            pos = 53\<rparr> = Inr (vals, h3)
        \<and> vals ! 198 = PFloat (Finite 1005))"
proof -
  let ?h = "\<lparr>buf = replicate 48 0 @ [199, 0, 0, 0] @ replicate 793 0 @ [0, 64, 123, 68],
             pos = 0\<rparr>"
  have h: "parse_mod ?h 2 USERPATCH15 = Inr (PTuple [PInt 1, PStr (str ''5'')], ?h)"
    by (simp add: parse_mod_def stream_eval index_values_def f32_def
        str_int_def digits_eval str_def floor_rat_numeral cong: eval_cong)
  have a: "unpack_int [(1, Cx), (1, Cx), (2, Cx), (36, Cx), (5, Cx), (1, Ch)] ?h
      = Inr (0, ?h\<lparr>pos := 47\<rparr>)"
    by (simp add: stream_eval cong: eval_cong)
  have b: "unpack_int [(0 + 1, Cx), (1, CI), (1, Cx)] (?h\<lparr>pos := 47\<rparr>)
      = Inr (199, ?h\<lparr>pos := 53\<rparr>)"
    by (simp add: stream_eval cong: eval_cong)
  from parse_mod_userpatch15 [OF h] a b
  have "\<exists>vals h3. unpack [(199, Cf)] (?h\<lparr>pos := 53\<rparr>) = Inr (vals, h3)
        \<and> (\<exists>q. vals ! 198 = PFloat (Finite q))"
    by auto
  then obtain vals h3 where u: "unpack [(199, Cf)] (?h\<lparr>pos := 53\<rparr>) = Inr (vals, h3)"
    by blast
  then have "vals ! 198 = PFloat (Finite 1005)"
    by (auto simp: stream_eval f32_def)
  with u h show ?thesis
    by auto
qed

text \<open>
  The claim as the spec words it fails for \<open>values[198] = 1504.0\<close>: the string
  component is \<open>5.0.4\<close>, not the decimal representation \<open>504\<close> of \<open>1504 % 1000\<close>.
\<close>

theorem parse_mod_counterexample:
  "parse_mod
     \<lparr>buf = replicate 48 0 @ [199, 0, 0, 0] @ replicate 793 0 @ [0, 0, 188, 68], pos = 0\<rparr>
     2 USERPATCH15
   = Inr (PTuple [PInt 1, PStr (str ''5.0.4'')],
      \<lparr>buf = replicate 48 0 @ [199, 0, 0, 0] @ replicate 793 0 @ [0, 0, 188, 68], pos = 0\<rparr>)
   \<and> str_int (1504 mod 1000) = str ''504''
   \<and> str ''5.0.4'' \<noteq> str ''504''"
  by (simp add: parse_mod_def stream_eval index_values_def f32_def
      str_int_def digits_eval str_def floor_rat_numeral cong: eval_cong)

section \<open>Properties of the lobby block\<close>

lemma lobby_prefix_adv:
  "adv data
     (skip_if (version \<noteq> DE \<and> version \<noteq> HD)
        (skip (if version = DE then
                 skip_if (fge save 66.3) (skip_if (fge save 64.3) (skip_if (fge save 37)
                   (skip_if (fge save 26.16) (skip_if (fge save 20.06) (skip data 5) 9) 5) 8) 16) 1
               else data) 8) 1)
     (lobby_prefix version save)"
proof -
  have "\<exists>k. adv data
     (skip_if (version \<noteq> DE \<and> version \<noteq> HD)
        (skip (if version = DE then
                 skip_if (fge save 66.3) (skip_if (fge save 64.3) (skip_if (fge save 37)
                   (skip_if (fge save 26.16) (skip_if (fge save 20.06) (skip data 5) 9) 5) 8) 16) 1
               else data) 8) 1) k \<and> k = lobby_prefix version save"
  proof (cases "version = DE")
    case True
    show ?thesis
      unfolding lobby_prefix_def
      by (simp only: True if_True, intro exI conjI, (rule adv_skip_if adv_skip adv_refl | simp)+)
  next
    case False
    show ?thesis
      unfolding lobby_prefix_def
      by (simp only: False if_False, intro exI conjI, (rule adv_skip_if adv_skip adv_refl | simp)+)
  qed
  then show ?thesis by blast
qed



text \<open>
  C7. When \<^verbatim>\<open>parse_lobby\<close> succeeds, the \<open>population\<close> of the record it returns is the
  u32 population field of the buffer (the third integer of the lobby struct, 12 bytes
  into it, the struct standing \<open>lobby_prefix\<close> bytes after the cursor) times 25 when the
  version is neither DE nor HD, and times 1 when it is DE or HD.
\<close>

theorem parse_lobby_population:
  assumes "parse_lobby data version save = Inr (lobby, data')"
  shows "\<exists>d. lobby = PDict d \<and>
    map_of d ''population'' =
      Some (PInt (int (le_nat (take 4 (drop (pos data + lobby_prefix version save + 12) (buf data))))
                  * (if version \<noteq> DE \<and> version \<noteq> HD then 25 else 1)))"
proof -
  define d3 where "d3 =
     skip_if (version \<noteq> DE \<and> version \<noteq> HD)
        (skip (if version = DE then
                 skip_if (fge save 66.3) (skip_if (fge save 64.3) (skip_if (fge save 37)
                   (skip_if (fge save 26.16) (skip_if (fge save 20.06) (skip data 5) 9) 5) 8) 16) 1
               else data) 8) 1"
  have adv: "adv data d3 (lobby_prefix version save)"
    unfolding d3_def by (rule lobby_prefix_adv)
  from assms obtain d4 a b c d e chat seed where
    u: "unpack [(1, CI), (4, Cx), (1, CI), (1, CI), (1, Cb), (1, Cb)] d3
          = Inr ([PInt a, PInt b, PInt c, PInt d, PInt e], d4)" and
    l: "lobby = PDict
            [(''reveal_map_id'', PInt a),
             (''map_size'', PInt b),
             (''population'',
                PInt (c * (if version \<noteq> DE \<and> version \<noteq> HD then 25 else 1))),
             (''game_type_id'', PInt d),
             (''lock_teams'', PBool (e = 1)),
             (''chat'', PList (map PBytes chat)),
             (''seed'', seed)]"
    unfolding parse_lobby_def Let_def d3_def [symmetric]
    by (elim bind_ints5E bind_pairE) blast
  from unpack_facts [OF u] have
    n: "18 \<le> length (buf d3) - pos d3" and
    i: "[PInt a, PInt b, PInt c, PInt d, PInt e]
        = decode [(1, CI), (4, Cx), (1, CI), (1, CI), (1, Cb), (1, Cb)]
               (take 18 (drop (pos d3) (buf d3)))"
    by (auto simp: calcsize_def)
  from adv_pos [OF adv _ n] have pos: "pos d3 = pos data + lobby_prefix version save"
    by simp
  from adv have b: "buf d3 = buf data"
    by (simp add: adv_def)
  from i have
    "c = int (le_nat (take 4 (drop (pos data + lobby_prefix version save + 12) (buf data))))"
    by (simp add: decode_rep_1 pos b drop_take ac_simps)
  with l show ?thesis
    by simp
qed


theorem parse_lobby_population_witness:
  "parse_lobby
     \<lparr>buf = replicate 9 0 @ [1, 0, 0, 0, 0, 0, 0, 0, 2, 0, 0, 0, 8, 0, 0, 0, 0, 1]
              @ [1, 0, 0, 0] @ [3, 0, 0, 0, 104, 105, 0], pos = 0\<rparr>
     USERPATCH15 (Finite 9.4)
   = Inr (PDict
           [(''reveal_map_id'', PInt 1), (''map_size'', PInt 2), (''population'', PInt 200),
            (''game_type_id'', PInt 0), (''lock_teams'', PBool True),
            (''chat'', PList [PBytes [104, 105]]), (''seed'', PNone)],
          \<lparr>buf = replicate 9 0 @ [1, 0, 0, 0, 0, 0, 0, 0, 2, 0, 0, 0, 8, 0, 0, 0, 0, 1]
              @ [1, 0, 0, 0] @ [3, 0, 0, 0, 104, 105, 0], pos = 38\<rparr>)
   \<and> int (le_nat (take 4 (drop (0 + lobby_prefix USERPATCH15 (Finite 9.4) + 12)
         (replicate 9 0 @ [1, 0, 0, 0, 0, 0, 0, 0, 2, 0, 0, 0, 8, 0, 0, 0, 0, 1]
              @ [1, 0, 0, 0] @ [3, 0, 0, 0, 104, 105, 0])))) * 25 = 200"
proof -
  let ?h = "\<lparr>buf = replicate 9 0 @ [1, 0, 0, 0, 0, 0, 0, 0, 2, 0, 0, 0, 8, 0, 0, 0, 0, 1]
              @ [1, 0, 0, 0] @ [3, 0, 0, 0, 104, 105, 0], pos = 0\<rparr>"
  have h: "parse_lobby ?h USERPATCH15 (Finite 9.4)
     = Inr (PDict
           [(''reveal_map_id'', PInt 1), (''map_size'', PInt 2), (''population'', PInt 200),
            (''game_type_id'', PInt 0), (''lock_teams'', PBool True),
            (''chat'', PList [PBytes [104, 105]]), (''seed'', PNone)],
          ?h\<lparr>pos := 38\<rparr>)"
    by (simp add: parse_lobby_def stream_eval lobby_chat_def strip0_def repeat_numeral
        cong: eval_cong)
  from parse_lobby_population [OF h] h show ?thesis
    by simp
qed

section \<open>The player slots of the DE block\<close>

lemma repeat_invariant:
  assumes "repeat n body s = Inr s'" and "P s"
    and "\<And>a b. P a \<Longrightarrow> body a = Inr b \<Longrightarrow> P b"
  shows "P s'"
  using assms(1,2)
proof (induction n arbitrary: s)
  case 0
  then show ?case by simp
next
  case (Suc n)
  from Suc.prems(1) obtain s1 where b: "body s = Inr s1" and r: "repeat n body s1 = Inr s'"
    by (auto simp: bind_Inr_iff)
  from assms(3) [OF Suc.prems(2) b] have "P s1" .
  from Suc.IH [OF r this] show ?case .
qed

lemma de_player_censored:
  assumes "de_player save (players, data) = Inr (players', data')" and "\<not> fge save 66.3"
  shows "\<exists>p. players' = players @ [p] \<and> censored_is_name p"
  using assms
  by (simp only: de_player_def Let_def prod.case simp_thms if_False, elim bind_ints2E bind_pairE bindE)
     (auto simp: censored_is_name_def dict_get_def)

lemma flt_not_fge: "flt save t \<Longrightarrow> \<not> fge save t"
  by (cases save) auto

lemma de_players_censored:
  assumes "repeat n (de_player save) (ps, data) = Inr (ps', data')" and "flt save 66.3"
  shows "\<exists>new. ps' = ps @ new \<and> length new = n \<and> list_all censored_is_name new"
  using assms(1)
proof (induction n arbitrary: ps data)
  case 0
  then show ?case by simp
next
  case (Suc n)
  from Suc.prems obtain s1 where b: "de_player save (ps, data) = Inr s1"
    and r: "repeat n (de_player save) s1 = Inr (ps', data')"
    by (auto simp: bind_Inr_iff)
  obtain ps1 d1 where s1: "s1 = (ps1, d1)" by (cases s1)
  from de_player_censored [of save ps data ps1 d1] b s1 flt_not_fge [OF assms(2)]
  obtain p where p: "ps1 = ps @ [p]" "censored_is_name p"
    by auto
  from Suc.IH [of ps1 d1] r s1 obtain new where
    new: "ps' = ps1 @ new" "length new = n" "list_all censored_is_name new"
    by auto
  from p new have "ps' = ps @ (p # new) \<and> length (p # new) = Suc n
      \<and> list_all censored_is_name (p # new)"
    by simp
  then show ?case by blast
qed

lemma parse_de_players:
  assumes "parse_de data DE save skp = Inr (de, data')"
  shows "\<exists>s d1 d2 players. parse_de_settings data save skp = Inr (s, d1)
           \<and> repeat (nat (if flt save 66.3 \<and> fge save 37 then de_num_players s else 8))
                (de_player save) ([], d1) = Inr (players, d2)
           \<and> dict_get de ''players'' = Some (PList players)"
  using assms
  apply (simp only: parse_de_def Let_def simp_thms if_False)
  apply (elim bind_ints2E bind_pairE bindE)
  apply (rule exI, rule exI, rule exI, rule exI, rule conjI, assumption, rule conjI, assumption)
  apply (auto simp: dict_get_def)
  done

text \<open>
  Claim C10. For every DE player slot parsed with a save version below 66.3 (where the
  byte stream holds no censored name), the slot record of the output still has a
  \<open>censored_name\<close> field, and it equals the \<open>name\<close> field of that slot: whenever
  \<^verbatim>\<open>parse_de\<close> returns a DE block for such a save version, its \<open>players\<close> list has one
  record for each slot that the loop parsed (as many as the settings give players for a
  save version from 37 on, eight before), and every one of these records has a name and
  a censored name that is this name.
\<close>

theorem parse_de_censored_name:
  assumes "parse_de data DE save skp = Inr (de, data')" and "flt save 66.3"
  shows "\<exists>s d1 players. parse_de_settings data save skp = Inr (s, d1)
           \<and> dict_get de ''players'' = Some (PList players)
           \<and> length players = nat (if fge save 37 then de_num_players s else 8)
           \<and> list_all censored_is_name players"
proof -
  from parse_de_players [OF assms(1)] obtain s d1 d2 players where
    s: "parse_de_settings data save skp = Inr (s, d1)"
    and r: "repeat (nat (if flt save 66.3 \<and> fge save 37 then de_num_players s else 8))
              (de_player save) ([], d1) = Inr (players, d2)"
    and g: "dict_get de ''players'' = Some (PList players)"
    by blast
  from de_players_censored [OF r assms(2)] assms(2)
  have "length players = nat (if fge save 37 then de_num_players s else 8)"
    and "list_all censored_is_name players"
    by auto
  with s g show ?thesis
    by blast
qed

theorem parse_de_censored_name_witness:
  "parse_de \<lparr>buf = fx, pos = 12\<rparr> DE fx_save False = Inr (fx_de, \<lparr>buf = fx, pos = 951\<rparr>)
   \<and> flt fx_save 66.3
   \<and> (\<exists>players. dict_get fx_de ''players'' = Some (PList players)
         \<and> length players = 8 \<and> list_all censored_is_name players)"
proof -
  have s: "flt fx_save 66.3" "\<not> fge fx_save 37"
    by (simp_all add: fx_save_def float_lits del: fge.simps flt.simps)
  from parse_de_censored_name [OF fx_parse_de s(1)] s fx_parse_de show ?thesis
    by auto
qed


end
